theory Spec2Isabelle
  imports Complex_Main
begin

section \<open>Python values as the import pipeline sees them\<close>

text \<open>
  The pipeline of \<^verbatim>\<open>movies/services/tmdb_parser.py\<close> and
  \<^verbatim>\<open>movies/management/commands/import_movies.py\<close> handles decoded JSON objects and
  CSV cells. Both are dynamically typed, so one datatype of values carries them.
  A finite float is represented by the rational number it denotes; the rounding done by
  \<^verbatim>\<open>float()\<close> when it reads text or a large integer is left to the library
  parameters below.
\<close>

datatype pyexc =
  KeyError | TypeError | ValueError | AttributeError | OverflowError
  | SyntaxError | JSONDecodeError | RecursionError | MemoryError

datatype pyfloat = Fin rat | PosInf | NegInf | NaN

datatype pyval =
  PNone
  | PBool bool
  | PInt int
  | PFloat pyfloat
  | PStr string
  | PList "pyval list"
  | PDict "(string \<times> pyval) list"

text \<open>
  Built-ins whose full behaviour lies outside the repository are parameters:
  \<^verbatim>\<open>float(str)\<close> (\<open>None\<close> is ValueError), \<^verbatim>\<open>float(int)\<close> beyond
  \<open>2^53\<close> (\<open>None\<close> is OverflowError), \<^verbatim>\<open>str()\<close> of a finite float and of a
  container, \<^verbatim>\<open>json.loads\<close> and \<^verbatim>\<open>ast.literal_eval\<close> (each returns the
  decoded value or the exception it raises).
\<close>

record pylib =
  float_of_str :: "string \<Rightarrow> pyfloat option"
  float_of_big_int :: "int \<Rightarrow> pyfloat option"
  str_of_float :: "rat \<Rightarrow> string"
  repr_of :: "pyval \<Rightarrow> string"
  json_loads :: "string \<Rightarrow> pyexc + pyval"
  literal_eval :: "string \<Rightarrow> pyexc + pyval"

text \<open>Sequencing of computations that may raise.\<close>

definition ebind :: "pyexc + 'a \<Rightarrow> ('a \<Rightarrow> pyexc + 'b) \<Rightarrow> pyexc + 'b" where
  "ebind x f = (case x of Inl e \<Rightarrow> Inl e | Inr v \<Rightarrow> f v)"

text \<open>
  \<^verbatim>\<open>except (A, B)\<close> catches the listed classes and their subclasses; of the
  exceptions modelled here only JSONDecodeError has a modelled base class, ValueError.
\<close>

definition caught :: "pyexc \<Rightarrow> pyexc list \<Rightarrow> bool" where
  "caught e classes = (e \<in> set classes \<or> (e = JSONDecodeError \<and> ValueError \<in> set classes))"

text \<open>Truth value testing (\<^verbatim>\<open>if x\<close>, \<^verbatim>\<open>not x\<close>, \<^verbatim>\<open>x or y\<close>).\<close>

fun truthy :: "pyval \<Rightarrow> bool" where
  "truthy PNone = False"
| "truthy (PBool b) = b"
| "truthy (PInt i) = (i \<noteq> 0)"
| "truthy (PFloat f) = (f \<noteq> Fin 0)"
| "truthy (PStr s) = (s \<noteq> [])"
| "truthy (PList xs) = (xs \<noteq> [])"
| "truthy (PDict kvs) = (kvs \<noteq> [])"

definition py_or :: "pyval \<Rightarrow> pyval \<Rightarrow> pyval" where
  "py_or a b = (if truthy a then a else b)"

text \<open>\<^verbatim>\<open>d.get(key, default)\<close> on the items of a dict.\<close>

definition pyget :: "(string \<times> pyval) list \<Rightarrow> string \<Rightarrow> pyval \<Rightarrow> pyval" where
  "pyget kvs k d = (case map_of kvs k of None \<Rightarrow> d | Some v \<Rightarrow> v)"

text \<open>Comparison \<^verbatim>\<open>a < b\<close> of floats: false whenever a NaN takes part.\<close>

fun float_lt :: "pyfloat \<Rightarrow> pyfloat \<Rightarrow> bool" where
  "float_lt (Fin a) (Fin b) = (a < b)"
| "float_lt (Fin a) PosInf = True"
| "float_lt NegInf (Fin b) = True"
| "float_lt NegInf PosInf = True"
| "float_lt _ _ = False"

subsection \<open>Strings\<close>

definition is_space :: "char \<Rightarrow> bool" where
  "is_space c = (c \<in> set [CHR '' '', CHR 0x09, CHR 0x0A, CHR 0x0B, CHR 0x0C, CHR 0x0D,
     CHR 0x1C, CHR 0x1D, CHR 0x1E, CHR 0x1F, CHR 0x85, CHR 0xA0])"

definition strip :: "string \<Rightarrow> string" where
  "strip s = rev (dropWhile is_space (rev (dropWhile is_space s)))"

definition startswith :: "string \<Rightarrow> string \<Rightarrow> bool" where
  "startswith s p = (take (length p) s = p)"

definition endswith :: "string \<Rightarrow> string \<Rightarrow> bool" where
  "endswith s p = (length p \<le> length s \<and> drop (length s - length p) s = p)"

definition lower_char :: "char \<Rightarrow> char" where
  "lower_char c =
     (case map_of (zip ''ABCDEFGHIJKLMNOPQRSTUVWXYZ'' ''abcdefghijklmnopqrstuvwxyz'') c of
        None \<Rightarrow> c | Some l \<Rightarrow> l)"

definition lower :: "string \<Rightarrow> string" where
  "lower s = map lower_char s"

definition replace_char :: "char \<Rightarrow> char \<Rightarrow> string \<Rightarrow> string" where
  "replace_char a b s = map (\<lambda>c. if c = a then b else c) s"

text \<open>\<^verbatim>\<open>', '.join(names)\<close> on strings.\<close>

fun join_comma :: "string list \<Rightarrow> string" where
  "join_comma [] = []"
| "join_comma [s] = s"
| "join_comma (s # t # ts) = s @ '', '' @ join_comma (t # ts)"

subsection \<open>Numbers\<close>

definition digit_of :: "char \<Rightarrow> nat option" where
  "digit_of c = map_of (zip ''0123456789'' [0, 1, 2, 3, 4, 5, 6, 7, 8, 9]) c"

text \<open>
  The digits of a base-10 literal, where single underscores may separate digits
  (as \<^verbatim>\<open>int()\<close> accepts them).
\<close>

fun digits_val :: "nat \<Rightarrow> string \<Rightarrow> nat option" where
  "digits_val acc [] = Some acc"
| "digits_val acc (c # cs) =
     (if c = CHR ''_'' then
        (case cs of [] \<Rightarrow> None
         | d # _ \<Rightarrow> if digit_of d = None then None else digits_val acc cs)
      else (case digit_of c of None \<Rightarrow> None | Some d \<Rightarrow> digits_val (10 * acc + d) cs))"

definition unsigned_of_str :: "string \<Rightarrow> nat option" where
  "unsigned_of_str s =
     (case s of [] \<Rightarrow> None
      | c # _ \<Rightarrow> if digit_of c = None then None else digits_val 0 s)"

text \<open>
  \<^verbatim>\<open>int(s)\<close> for a string: \<open>None\<close> is ValueError. The whitespace that
  \<^verbatim>\<open>int\<close> ignores around the literal is narrower than that of \<^verbatim>\<open>str.strip\<close>:
  the separators 0x1C to 0x1F are not part of it.
\<close>

definition is_int_space :: "char \<Rightarrow> bool" where
  "is_int_space c = (c \<in> set [CHR '' '', CHR 0x09, CHR 0x0A, CHR 0x0B, CHR 0x0C, CHR 0x0D,
     CHR 0x85, CHR 0xA0])"

definition int_strip :: "string \<Rightarrow> string" where
  "int_strip s = rev (dropWhile is_int_space (rev (dropWhile is_int_space s)))"

definition int_of_str :: "string \<Rightarrow> int option" where
  "int_of_str s =
     (case int_strip s of
        [] \<Rightarrow> None
      | c # cs \<Rightarrow>
          if c = CHR ''-'' then map_option (\<lambda>n. - int n) (unsigned_of_str cs)
          else if c = CHR ''+'' then map_option int (unsigned_of_str cs)
          else map_option int (unsigned_of_str (c # cs)))"

text \<open>\<^verbatim>\<open>int(x)\<close> for a float truncates toward zero; infinities and NaN raise.\<close>

definition trunc :: "rat \<Rightarrow> int" where
  "trunc r = (if 0 \<le> r then \<lfloor>r\<rfloor> else - \<lfloor>- r\<rfloor>)"

fun int_of_float :: "pyfloat \<Rightarrow> pyexc + int" where
  "int_of_float (Fin r) = Inr (trunc r)"
| "int_of_float NaN = Inl ValueError"
| "int_of_float _ = Inl OverflowError"

fun py_int :: "pyval \<Rightarrow> pyexc + int" where
  "py_int (PInt i) = Inr i"
| "py_int (PBool b) = Inr (if b then 1 else 0)"
| "py_int (PFloat f) = int_of_float f"
| "py_int (PStr s) = (case int_of_str s of None \<Rightarrow> Inl ValueError | Some i \<Rightarrow> Inr i)"
| "py_int _ = Inl TypeError"

fun py_float :: "pylib \<Rightarrow> pyval \<Rightarrow> pyexc + pyfloat" where
  "py_float lib (PFloat f) = Inr f"
| "py_float lib (PInt i) =
     (if \<bar>i\<bar> \<le> 2 ^ 53 then Inr (Fin (of_int i))
      else (case float_of_big_int lib i of None \<Rightarrow> Inl OverflowError | Some f \<Rightarrow> Inr f))"
| "py_float lib (PBool b) = Inr (Fin (if b then 1 else 0))"
| "py_float lib (PStr s) =
     (case float_of_str lib s of None \<Rightarrow> Inl ValueError | Some f \<Rightarrow> Inr f)"
| "py_float lib _ = Inl TypeError"

text \<open>The decimal digits of a natural number, and \<^verbatim>\<open>str(i)\<close> for an int.\<close>

fun digits_of :: "nat \<Rightarrow> string" where
  "digits_of n =
     (if n < 10 then [''0123456789'' ! n]
      else digits_of (n div 10) @ [''0123456789'' ! (n mod 10)])"

declare digits_of.simps [simp del]

definition str_of_int :: "int \<Rightarrow> string" where
  "str_of_int i = (if i < 0 then CHR ''-'' # digits_of (nat (- i)) else digits_of (nat i))"

fun py_str :: "pylib \<Rightarrow> pyval \<Rightarrow> string" where
  "py_str lib (PStr s) = s"
| "py_str lib PNone = ''None''"
| "py_str lib (PBool b) = (if b then ''True'' else ''False'')"
| "py_str lib (PInt i) = str_of_int i"
| "py_str lib (PFloat NaN) = ''nan''"
| "py_str lib (PFloat PosInf) = ''inf''"
| "py_str lib (PFloat NegInf) = ''-inf''"
| "py_str lib (PFloat (Fin r)) = str_of_float lib r"
| "py_str lib v = repr_of lib v"

text \<open>
  Slicing \<^verbatim>\<open>x[:n]\<close>: strings and lists are cut, every other value raises
  (TypeError; for a dict Python 3.12 raises KeyError instead).
\<close>

fun py_slice :: "nat \<Rightarrow> pyval \<Rightarrow> pyexc + pyval" where
  "py_slice n (PStr s) = Inr (PStr (take n s))"
| "py_slice n (PList xs) = Inr (PList (take n xs))"
| "py_slice n _ = Inl TypeError"

text \<open>\<^verbatim>\<open>len(x)\<close> of a sized value, used to state length bounds.\<close>

fun py_len :: "pyval \<Rightarrow> nat" where
  "py_len (PStr s) = length s"
| "py_len (PList xs) = length xs"
| "py_len (PDict kvs) = length kvs"
| "py_len _ = 0"

section \<open>The canonical record\<close>

text \<open>
  The dict of model fields that both parsers emit and from which
  \<^verbatim>\<open>Movie(**fields)\<close> is built. The keys \<^verbatim>\<open>metascore\<close>,
  \<^verbatim>\<open>rotten_tomatoes\<close>, \<^verbatim>\<open>rated\<close> and \<^verbatim>\<open>awards\<close> are constant
  (None or the empty string) in both parsers and are left out. The hierarchical
  parser copies \<^verbatim>\<open>title\<close>, \<^verbatim>\<open>overview\<close>, \<^verbatim>\<open>language\<close> and
  \<^verbatim>\<open>released\<close> from the decoded object without converting them, so these are values.
\<close>

record movie_fields =
  tmdb_id :: int
  title :: pyval
  year :: int
  genres :: string
  overview :: pyval
  poster_path :: string
  popularity :: pyfloat
  language :: pyval
  imdb_id :: string
  imdb_rating :: "pyfloat option"
  imdb_votes :: string
  director :: string
  writer :: string
  actors :: string
  released :: pyval
  country :: string
  production :: string
  runtime :: "int option"
  box_office :: string

section \<open>The hierarchical parser: class TMDBParser\<close>

definition GENRE_MAP :: "(int \<times> string) list" where
  "GENRE_MAP =
     [(28, ''Action''), (12, ''Adventure''), (16, ''Animation''), (35, ''Comedy''),
      (80, ''Crime''), (99, ''Documentary''), (18, ''Drama''), (10751, ''Family''),
      (14, ''Fantasy''), (36, ''History''), (27, ''Horror''), (10402, ''Music''),
      (9648, ''Mystery''), (10749, ''Romance''), (878, ''Science Fiction''),
      (10770, ''TV Movie''), (53, ''Thriller''), (10752, ''War''), (37, ''Western'')]"

text \<open>
  \<^verbatim>\<open>_is_valid_movie\<close> returns the value of
  \<^verbatim>\<open>isinstance(movie, dict) and movie.get('id') is not None and movie.get('title')
  or movie.get('original_title')\<close>.
  Python parses it as \<^verbatim>\<open>(A and B and C) or D\<close>; the callers test the result for truth.
  When \<^verbatim>\<open>movie\<close> is not a dict the left operand is False and \<^verbatim>\<open>movie.get\<close>
  raises AttributeError.
\<close>

fun is_valid_movie :: "pyval \<Rightarrow> pyexc + pyval" where
  "is_valid_movie (PDict kvs) =
     Inr (py_or
       (if pyget kvs ''id'' PNone \<noteq> PNone then pyget kvs ''title'' PNone else PBool False)
       (pyget kvs ''original_title'' PNone))"
| "is_valid_movie _ = Inl AttributeError"

text \<open>
  A file is the list of its lines, without the line ends. The loop of
  \<^verbatim>\<open>_stream_fallback\<close> over the lines of a newline-delimited file: a line that
  does not decode is skipped; the yielded objects are collected in order, and an
  exception other than JSONDecodeError ends the stream.
\<close>

fun jsonl_lines :: "pylib \<Rightarrow> string list \<Rightarrow> pyexc + pyval list" where
  "jsonl_lines lib [] = Inr []"
| "jsonl_lines lib (raw # rest) =
     (let line = strip raw in
      if line \<noteq> [] \<and> \<not> startswith line ''['' \<and> \<not> startswith line '']'' then
        (let line' = (if endswith line '','' then butlast line else line) in
         case json_loads lib line' of
           Inl e \<Rightarrow> if caught e [JSONDecodeError] then jsonl_lines lib rest else Inl e
         | Inr movie \<Rightarrow>
             ebind (is_valid_movie movie) (\<lambda>ok.
               if truthy ok then ebind (jsonl_lines lib rest) (\<lambda>ms. Inr (movie # ms))
               else jsonl_lines lib rest))
      else jsonl_lines lib rest)"

text \<open>
  \<^verbatim>\<open>_parse_json_array\<close>: only the lines that are empty or consist of one bracket
  are passed over.
\<close>

fun parse_json_array :: "pylib \<Rightarrow> string list \<Rightarrow> pyexc + pyval list" where
  "parse_json_array lib [] = Inr []"
| "parse_json_array lib (raw # rest) =
     (let line = strip raw in
      if line = [] \<or> line \<in> set [''['', '']''] then parse_json_array lib rest
      else
        (let line' = (if endswith line '','' then butlast line else line) in
         case json_loads lib line' of
           Inl e \<Rightarrow> if caught e [JSONDecodeError] then parse_json_array lib rest else Inl e
         | Inr movie \<Rightarrow>
             ebind (is_valid_movie movie) (\<lambda>ok.
               if truthy ok then ebind (parse_json_array lib rest) (\<lambda>ms. Inr (movie # ms))
               else parse_json_array lib rest)))"

text \<open>
  \<^verbatim>\<open>_stream_fallback\<close>: the first character of the file selects the loop. It is an
  opening bracket exactly when the first line starts with one.
\<close>

definition stream_fallback :: "pylib \<Rightarrow> string list \<Rightarrow> pyexc + pyval list" where
  "stream_fallback lib file =
     (case file of
        [] \<Rightarrow> jsonl_lines lib file
      | first # _ \<Rightarrow>
          if startswith first ''['' then parse_json_array lib file
          else jsonl_lines lib file)"

text \<open>
  \<^verbatim>\<open>gid in cls.GENRE_MAP\<close>: a key of the table is found by hash and equality, so a
  float equal to a key finds it and a bool counts as 0 or 1; a list or dict is
  unhashable and raises TypeError.
\<close>

fun genre_lookup :: "pyval \<Rightarrow> pyexc + string option" where
  "genre_lookup (PInt i) = Inr (map_of GENRE_MAP i)"
| "genre_lookup (PBool b) = Inr (map_of GENRE_MAP (if b then 1 else 0))"
| "genre_lookup (PFloat (Fin r)) =
     Inr (if r = of_int \<lfloor>r\<rfloor> then map_of GENRE_MAP \<lfloor>r\<rfloor> else None)"
| "genre_lookup (PFloat _) = Inr None"
| "genre_lookup PNone = Inr None"
| "genre_lookup (PStr s) = Inr None"
| "genre_lookup (PList xs) = Inl TypeError"
| "genre_lookup (PDict kvs) = Inl TypeError"

text \<open>\<^verbatim>\<open>for gid in genre_ids\<close>: the items that iterating a value yields.\<close>

fun py_iter :: "pyval \<Rightarrow> pyexc + pyval list" where
  "py_iter (PList xs) = Inr xs"
| "py_iter (PStr s) = Inr (map (\<lambda>c. PStr [c]) s)"
| "py_iter (PDict kvs) = Inr (map (\<lambda>kv. PStr (fst kv)) kvs)"
| "py_iter _ = Inl TypeError"

fun genre_names :: "pyval list \<Rightarrow> pyexc + string list" where
  "genre_names [] = Inr []"
| "genre_names (gid # gids) =
     ebind (genre_lookup gid) (\<lambda>hit.
       ebind (genre_names gids) (\<lambda>names.
         Inr (case hit of None \<Rightarrow> names | Some name \<Rightarrow> name # names)))"

definition parse_genres :: "pyval \<Rightarrow> pyexc + string" where
  "parse_genres genre_ids =
     (if \<not> truthy genre_ids then Inr []
      else ebind (py_iter genre_ids) (\<lambda>gids.
             ebind (genre_names gids) (\<lambda>names. Inr (join_comma names))))"

text \<open>
  \<^verbatim>\<open>parse_release_year\<close>: ValueError and TypeError are caught, and nothing else can
  be raised inside the try block.
\<close>

definition parse_release_year :: "pyval \<Rightarrow> int option" where
  "parse_release_year release_date =
     (if \<not> truthy release_date then None
      else case release_date of
        PStr s \<Rightarrow>
          (if length s \<ge> 4 then
             (case int_of_str (take 4 s) of
                None \<Rightarrow> None
              | Some y \<Rightarrow> if 1888 \<le> y \<and> y \<le> 2100 then Some y else None)
           else None)
      | _ \<Rightarrow> None)"

text \<open>
  \<^verbatim>\<open>float(popularity)\<close> inside \<^verbatim>\<open>try ... except (ValueError, TypeError)\<close>
  with the fallback 0.0; OverflowError is not caught.
\<close>

definition popularity_of :: "pylib \<Rightarrow> pyval \<Rightarrow> pyexc + pyfloat" where
  "popularity_of lib p =
     (case py_float lib p of
        Inr f \<Rightarrow> Inr f
      | Inl e \<Rightarrow> if caught e [ValueError, TypeError] then Inr (Fin 0) else Inl e)"

definition poster_url :: "string \<Rightarrow> string" where
  "poster_url p =
     (if p \<noteq> [] \<and> \<not> startswith p ''http'' then ''https://image.tmdb.org/t/p/w500'' @ p
      else p)"

text \<open>
  The poster path after \<^verbatim>\<open>movie_data.get('poster_path', '') or ''\<close> and the
  prefixing step: \<^verbatim>\<open>startswith\<close> exists on strings only.
\<close>

definition poster_of :: "pyval \<Rightarrow> pyexc + string" where
  "poster_of raw =
     (case py_or raw (PStr []) of
        PStr s \<Rightarrow> Inr (poster_url s)
      | _ \<Rightarrow> Inl AttributeError)"

text \<open>
  \<^verbatim>\<open>movie_to_django_fields\<close> on the items of the decoded object. The entries of
  the returned dict are evaluated in the order of the source, so the first failing one
  decides the exception.
\<close>

definition movie_to_django_fields ::
  "pylib \<Rightarrow> (string \<times> pyval) list \<Rightarrow> pyexc + movie_fields option" where
  "movie_to_django_fields lib md =
     (let title0 = py_or (pyget md ''title'' PNone) (pyget md ''original_title'' PNone) in
      if \<not> truthy title0 then Inr None
      else case parse_release_year (pyget md ''release_date'' PNone) of
        None \<Rightarrow> Inr None
      | Some y \<Rightarrow>
          ebind (parse_genres (pyget md ''genre_ids'' (PList []))) (\<lambda>gs.
          ebind (poster_of (pyget md ''poster_path'' (PStr []))) (\<lambda>poster.
          ebind (popularity_of lib (pyget md ''popularity'' (PFloat (Fin 0)))) (\<lambda>pop.
          let overview0 = py_or (pyget md ''overview'' (PStr [])) (PStr []);
              language0 = py_or (pyget md ''original_language'' (PStr [])) (PStr [])
          in
          ebind (case map_of md ''id'' of None \<Rightarrow> Inl KeyError | Some v \<Rightarrow> py_int v) (\<lambda>ident.
          ebind (py_slice 255 title0) (\<lambda>title1.
          ebind (py_slice 200 language0) (\<lambda>language1.
            Inr (Some \<lparr>
              tmdb_id = ident,
              title = title1,
              year = y,
              genres = take 500 gs,
              overview = overview0,
              poster_path = take 500 poster,
              popularity = pop,
              language = language1,
              imdb_id = [],
              imdb_rating = None,
              imdb_votes = [],
              director = [],
              writer = [],
              actors = [],
              released = py_or (pyget md ''release_date'' (PStr [])) (PStr []),
              country = [],
              production = [],
              runtime = None,
              box_office = []
            \<rparr>))))))))"

section \<open>The tabular parser: class KaggleTMDBParser\<close>

text \<open>
  \<^verbatim>\<open>_parse_json_field\<close>: the result None of the source is \<open>PNone\<close>. The first
  handler catches JSONDecodeError and TypeError, the second ValueError and SyntaxError;
  any other exception of a decoder leaves the function.
\<close>

definition parse_json_field :: "pylib \<Rightarrow> string \<Rightarrow> pyexc + pyval" where
  "parse_json_field lib v =
     (if v = [] \<or> v \<in> set [[], ''[]'', ''{}'', ''nan'', ''None''] then Inr PNone
      else case json_loads lib (replace_char (CHR 0x27) (CHR 0x22) v) of
        Inr parsed \<Rightarrow> Inr parsed
      | Inl e \<Rightarrow>
          if caught e [JSONDecodeError, TypeError] then
            (case literal_eval lib v of
               Inr parsed \<Rightarrow> Inr parsed
             | Inl e' \<Rightarrow> if caught e' [ValueError, SyntaxError] then Inr PNone else Inl e')
          else Inl e)"

text \<open>\<^verbatim>\<open>', '.join(items)\<close>: an item that is not a string raises TypeError.\<close>

fun join_values :: "pyval list \<Rightarrow> pyexc + string list" where
  "join_values [] = Inr []"
| "join_values (PStr s # rest) = ebind (join_values rest) (\<lambda>ss. Inr (s # ss))"
| "join_values (_ # rest) = Inl TypeError"

definition py_join :: "pyval list \<Rightarrow> pyexc + string" where
  "py_join items = ebind (join_values items) (\<lambda>ss. Inr (join_comma ss))"

text \<open>
  The loop shared by \<^verbatim>\<open>_extract_genres\<close>, \<^verbatim>\<open>_extract_cast\<close> and
  \<^verbatim>\<open>_extract_production_companies\<close>: a dict contributes its \<^verbatim>\<open>name\<close> entry,
  a string itself, anything else nothing.
\<close>

fun name_items :: "pyval list \<Rightarrow> pyval list" where
  "name_items [] = []"
| "name_items (PDict kvs # rest) =
     (case map_of kvs ''name'' of
        Some n \<Rightarrow> n # name_items rest
      | None \<Rightarrow> name_items rest)"
| "name_items (PStr s # rest) = PStr s # name_items rest"
| "name_items (_ # rest) = name_items rest"

definition extract_genres :: "pylib \<Rightarrow> string \<Rightarrow> pyexc + string" where
  "extract_genres lib genres_str =
     ebind (parse_json_field lib genres_str) (\<lambda>parsed.
       if \<not> truthy parsed then Inr []
       else case parsed of
         PList items \<Rightarrow> py_join (name_items items)
       | _ \<Rightarrow> Inr [])"

definition extract_cast :: "pylib \<Rightarrow> string \<Rightarrow> nat \<Rightarrow> pyexc + string" where
  "extract_cast lib cast_str n =
     ebind (parse_json_field lib cast_str) (\<lambda>parsed.
       if \<not> truthy parsed then Inr []
       else case parsed of
         PList items \<Rightarrow> py_join (name_items (take n items))
       | _ \<Rightarrow> Inr [])"

definition extract_production_companies :: "pylib \<Rightarrow> string \<Rightarrow> pyexc + string" where
  "extract_production_companies lib prod_str =
     ebind (parse_json_field lib prod_str) (\<lambda>parsed.
       if \<not> truthy parsed then Inr []
       else case parsed of
         PList items \<Rightarrow> py_join (name_items (take 5 items))
       | _ \<Rightarrow> Inr [])"

text \<open>
  The loops of \<^verbatim>\<open>_extract_countries\<close> and \<^verbatim>\<open>_extract_languages\<close>: a dict
  contributes the first truthy value among the listed keys.
\<close>

fun first_of_keys :: "(string \<times> pyval) list \<Rightarrow> string list \<Rightarrow> pyval" where
  "first_of_keys kvs [] = PNone"
| "first_of_keys kvs [k] = pyget kvs k (PStr [])"
| "first_of_keys kvs (k # ks) = py_or (pyget kvs k PNone) (first_of_keys kvs ks)"

fun keyed_items :: "string list \<Rightarrow> pyval list \<Rightarrow> pyval list" where
  "keyed_items ks [] = []"
| "keyed_items ks (PDict kvs # rest) =
     (let name = first_of_keys kvs ks in
      if truthy name then name # keyed_items ks rest else keyed_items ks rest)"
| "keyed_items ks (PStr s # rest) = PStr s # keyed_items ks rest"
| "keyed_items ks (_ # rest) = keyed_items ks rest"

definition extract_countries :: "pylib \<Rightarrow> string \<Rightarrow> pyexc + string" where
  "extract_countries lib countries_str =
     ebind (parse_json_field lib countries_str) (\<lambda>parsed.
       if \<not> truthy parsed then Inr []
       else case parsed of
         PList items \<Rightarrow> py_join (keyed_items [''name'', ''iso_3166_1''] items)
       | _ \<Rightarrow> Inr [])"

definition extract_languages :: "pylib \<Rightarrow> string \<Rightarrow> pyexc + string" where
  "extract_languages lib lang_str =
     ebind (parse_json_field lib lang_str) (\<lambda>parsed.
       if \<not> truthy parsed then Inr []
       else case parsed of
         PList items \<Rightarrow> py_join (keyed_items [''english_name'', ''name'', ''iso_639_1''] items)
       | _ \<Rightarrow> Inr [])"

text \<open>
  The loop of \<^verbatim>\<open>_extract_crew\<close>, returning the directors and the writers found.
  \<^verbatim>\<open>item.get('job', '').lower()\<close> raises AttributeError when the job is not a string.
\<close>

fun crew_loop :: "pyval list \<Rightarrow> pyexc + pyval list \<times> pyval list" where
  "crew_loop [] = Inr ([], [])"
| "crew_loop (PDict kvs # rest) =
     (case pyget kvs ''job'' (PStr []) of
        PStr j \<Rightarrow>
          (let job = lower j; name = pyget kvs ''name'' (PStr []) in
           ebind (crew_loop rest) (\<lambda>(directors, writers).
             if job = ''director'' \<and> truthy name then Inr (name # directors, writers)
             else if job \<in> set [''writer'', ''screenplay'', ''story''] \<and> truthy name
               then Inr (directors, name # writers)
             else Inr (directors, writers)))
      | _ \<Rightarrow> Inl AttributeError)"
| "crew_loop (_ # rest) = crew_loop rest"

definition extract_crew :: "pylib \<Rightarrow> string \<Rightarrow> pyexc + string \<times> string" where
  "extract_crew lib crew_str =
     ebind (parse_json_field lib crew_str) (\<lambda>parsed.
       case parsed of
         PList items \<Rightarrow>
           (if items = [] then Inr ([], [])
            else ebind (crew_loop items) (\<lambda>(directors, writers).
                   ebind (py_join (take 3 directors)) (\<lambda>d.
                   ebind (py_join (take 3 writers)) (\<lambda>w. Inr (d, w)))))
       | _ \<Rightarrow> Inr ([], []))"

text \<open>
  \<^verbatim>\<open>_parse_year\<close>; the membership test \<^verbatim>\<open>release_date in ('', 'nan', 'None')\<close>
  compares by equality, so only a string can match.
\<close>

definition parse_year :: "pylib \<Rightarrow> pyval \<Rightarrow> int option" where
  "parse_year lib release_date =
     (if \<not> truthy release_date \<or> release_date \<in> set [PStr [], PStr ''nan'', PStr ''None'']
      then None
      else let s = py_str lib release_date in
        if length s \<ge> 4 then
          (case int_of_str (take 4 s) of
             None \<Rightarrow> None
           | Some y \<Rightarrow> if 1888 \<le> y \<and> y \<le> 2100 then Some y else None)
        else None)"

definition safe_float :: "pylib \<Rightarrow> pyval \<Rightarrow> pyexc + pyfloat option" where
  "safe_float lib v =
     (if v = PNone \<or> v = PStr [] \<or> lower (py_str lib v) \<in> set [''nan'', ''none'', []]
      then Inr None
      else case py_float lib v of
        Inr f \<Rightarrow> Inr (Some f)
      | Inl e \<Rightarrow> if caught e [ValueError, TypeError] then Inr None else Inl e)"

text \<open>
  \<^verbatim>\<open>_safe_int\<close> computes \<^verbatim>\<open>int(float(value))\<close>; the handler catches ValueError
  and TypeError, so the OverflowError of an infinite float leaves the function.
\<close>

definition safe_int :: "pylib \<Rightarrow> pyval \<Rightarrow> pyexc + int option" where
  "safe_int lib v =
     (if v = PNone \<or> v = PStr [] \<or> lower (py_str lib v) \<in> set [''nan'', ''none'', []]
      then Inr None
      else case ebind (py_float lib v) int_of_float of
        Inr i \<Rightarrow> Inr (Some i)
      | Inl e \<Rightarrow> if caught e [ValueError, TypeError] then Inr None else Inl e)"

text \<open>The format \<^verbatim>\<open>f"{n:,}"\<close>: decimal digits in groups of three.\<close>

fun group3 :: "string \<Rightarrow> string" where
  "group3 (a # b # c # d # rest) = a # b # c # CHR '','' # group3 (d # rest)"
| "group3 s = s"

definition commas_of_int :: "int \<Rightarrow> string" where
  "commas_of_int i =
     (if i < 0 then CHR ''-'' # rev (group3 (rev (digits_of (nat (- i)))))
      else rev (group3 (rev (digits_of (nat i)))))"

text \<open>
  The helper \<^verbatim>\<open>get\<close> of \<^verbatim>\<open>_row_to_movie\<close>: None and a float NaN (the only float
  whose \<^verbatim>\<open>str\<close> is \<^verbatim>\<open>'nan'\<close>) give the default.
\<close>

definition row_get :: "(string \<times> pyval) list \<Rightarrow> string \<Rightarrow> pyval \<Rightarrow> pyval" where
  "row_get row key dflt =
     (let val = pyget row key dflt in
      if val = PNone \<or> val = PFloat NaN then dflt else val)"

definition row_to_movie ::
  "pylib \<Rightarrow> (string \<times> pyval) list \<Rightarrow> bool \<Rightarrow> int \<Rightarrow> pyexc + movie_fields option" where
  "row_to_movie lib row only_released min_votes =
     (let status = lower (py_str lib (row_get row ''status'' (PStr []))) in
      if only_released \<and> status \<noteq> ''released'' then Inr None
      else
        ebind (safe_int lib (row_get row ''vote_count'' (PInt 0))) (\<lambda>vote_count.
        if min_votes > 0 \<and> (case vote_count of None \<Rightarrow> 0 | Some n \<Rightarrow> n) < min_votes
        then Inr None
        else
          let t = py_str lib (row_get row ''title'' (PStr []));
              title0 = (if t \<noteq> [] then t
                        else py_str lib (row_get row ''original_title'' (PStr [])))
          in
          if title0 = [] then Inr None
          else case parse_year lib (row_get row ''release_date'' (PStr [])) of
            None \<Rightarrow> Inr None
          | Some y \<Rightarrow>
              ebind (safe_int lib (row_get row ''id'' (PStr []))) (\<lambda>ident.
              case ident of
                None \<Rightarrow> Inr None
              | Some i \<Rightarrow>
                if i = 0 then Inr None
                else
                ebind (extract_crew lib (py_str lib (row_get row ''crew'' (PStr ''[]''))))
                  (\<lambda>(crew_director, crew_writer).
                let poster = poster_url (py_str lib (row_get row ''poster_path'' (PStr []))) in
                ebind (safe_int lib (row_get row ''revenue'' (PInt 0))) (\<lambda>revenue.
                let box = (case revenue of
                             None \<Rightarrow> []
                           | Some r \<Rightarrow> if r > 0 then CHR ''$'' # commas_of_int r else []) in
                ebind (safe_float lib (row_get row ''imdb_rating'' (PStr []))) (\<lambda>rating.
                ebind (safe_int lib (row_get row ''imdb_vote_count'' (PInt 0))) (\<lambda>votes_raw.
                let votes = (case votes_raw of
                               None \<Rightarrow> []
                             | Some n \<Rightarrow> if n \<noteq> 0 then commas_of_int n else []) in
                ebind (extract_genres lib (py_str lib (row_get row ''genres'' (PStr ''[]''))))
                  (\<lambda>gs.
                ebind (safe_float lib (row_get row ''popularity'' (PStr []))) (\<lambda>pop.
                ebind (extract_languages lib
                         (py_str lib (row_get row ''spoken_languages'' (PStr ''[]''))))
                  (\<lambda>langs.
                ebind (extract_cast lib (py_str lib (row_get row ''cast'' (PStr ''[]''))) 10)
                  (\<lambda>cast.
                ebind (extract_countries lib
                         (py_str lib (row_get row ''production_countries'' (PStr ''[]''))))
                  (\<lambda>countries.
                ebind (extract_production_companies lib
                         (py_str lib (row_get row ''production_companies'' (PStr ''[]''))))
                  (\<lambda>companies.
                ebind (safe_int lib (row_get row ''runtime'' (PStr []))) (\<lambda>minutes.
                  Inr (Some \<lparr>
                    tmdb_id = i,
                    title = PStr (take 255 title0),
                    year = y,
                    genres = take 500 gs,
                    overview = PStr (take 5000 (py_str lib (row_get row ''overview'' (PStr [])))),
                    poster_path = take 500 poster,
                    popularity = (case pop of None \<Rightarrow> Fin 0 | Some f \<Rightarrow> f),
                    language = PStr (take 200 langs),
                    imdb_id = take 50 (py_str lib (row_get row ''imdb_id'' (PStr []))),
                    imdb_rating = rating,
                    imdb_votes = take 100 votes,
                    director = take 500 crew_director,
                    writer = take 500 crew_writer,
                    actors = take 1000 cast,
                    released =
                      PStr (take 100 (py_str lib (row_get row ''release_date'' (PStr [])))),
                    country = take 200 countries,
                    production = take 500 companies,
                    runtime = minutes,
                    box_office = take 100 box
                  \<rparr>)))))))))))))))"

text \<open>
  \<^verbatim>\<open>_stream_with_csv\<close> and \<^verbatim>\<open>_stream_with_pandas\<close> over the rows read: the
  records of the rows that convert, in order.
\<close>

fun stream_rows ::
  "pylib \<Rightarrow> (string \<times> pyval) list list \<Rightarrow> bool \<Rightarrow> int \<Rightarrow> pyexc + movie_fields list" where
  "stream_rows lib [] only_released min_votes = Inr []"
| "stream_rows lib (row # rows) only_released min_votes =
     ebind (row_to_movie lib row only_released min_votes) (\<lambda>movie.
       ebind (stream_rows lib rows only_released min_votes) (\<lambda>movies.
         Inr (case movie of None \<Rightarrow> movies | Some m \<Rightarrow> m # movies)))"

section \<open>The storage collaborator and the batch committer\<close>

text \<open>
  The database is reached through three operations of the Django model:
  the query of the stored identifiers, \<^verbatim>\<open>Movie.objects.bulk_create(batch,
  ignore_conflicts=True)\<close> and \<^verbatim>\<open>movie.save()\<close>. The two writes return the new
  database, or \<open>None\<close> when they raise; a write that raises leaves the database as it
  was (Django runs each in a transaction).
\<close>

record 'db storage =
  query_existing_ids :: "'db \<Rightarrow> int set"
  bulk_create :: "'db \<Rightarrow> movie_fields list \<Rightarrow> 'db option"
  save :: "'db \<Rightarrow> movie_fields \<Rightarrow> 'db option"

text \<open>The fallback loop of \<^verbatim>\<open>_bulk_create_batch\<close>: a failing save is passed over.\<close>

fun save_each :: "'db storage \<Rightarrow> movie_fields list \<Rightarrow> 'db \<Rightarrow> 'db" where
  "save_each sto [] d = d"
| "save_each sto (movie # rest) d =
     save_each sto rest (case save sto d movie of None \<Rightarrow> d | Some d' \<Rightarrow> d')"

text \<open>\<^verbatim>\<open>_bulk_create_batch\<close> has no return statement: its only effect is the database.\<close>

definition bulk_create_batch :: "'db storage \<Rightarrow> movie_fields list \<Rightarrow> 'db \<Rightarrow> 'db" where
  "bulk_create_batch sto b d =
     (case bulk_create sto d b of
        Some d' \<Rightarrow> d'
      | None \<Rightarrow> save_each sto b d)"

section \<open>The import supervisor: bulk_import_tmdb\<close>

record import_config =
  limit :: int
  batch_size :: int
  skip_adult :: bool
  min_popularity :: pyfloat

record 'db import_state =
  imported :: nat
  skipped_existing :: nat
  skipped_invalid :: nat
  skipped_adult :: nat
  skipped_unpopular :: nat
  processed :: nat
  batch :: "movie_fields list"
  existing_ids :: "int set"
  db :: 'db

text \<open>
  The flag \<^verbatim>\<open>is_csv\<close> is fixed for a run and selects the parser that feeds the loop:
  the tabular parser yields finished records, the hierarchical one decoded objects.
  An entry of the stream carries which of the two it is.
\<close>

datatype movie_data = JsonEntry pyval | CsvEntry movie_fields

datatype outcome = Adult | Unpopular | Invalid | Fields movie_fields

text \<open>
  The first half of the loop body, up to \<^verbatim>\<open>if not fields\<close>. A record of the tabular
  parser is a non-empty dict, so it is never counted invalid here.
\<close>

definition entry_outcome :: "pylib \<Rightarrow> import_config \<Rightarrow> movie_data \<Rightarrow> pyexc + outcome" where
  "entry_outcome lib cfg md =
     (case md of
        CsvEntry rec \<Rightarrow> Inr (Fields rec)
      | JsonEntry (PDict kvs) \<Rightarrow>
          if skip_adult cfg \<and> truthy (pyget kvs ''adult'' (PBool False)) then Inr Adult
          else
            ebind (popularity_of lib (pyget kvs ''popularity'' (PFloat (Fin 0)))) (\<lambda>pop.
              if float_lt pop (min_popularity cfg) then Inr Unpopular
              else ebind (movie_to_django_fields lib kvs) (\<lambda>rec.
                     Inr (case rec of None \<Rightarrow> Invalid | Some f \<Rightarrow> Fields f)))
      | JsonEntry _ \<Rightarrow> Inl AttributeError)"

text \<open>A full batch is committed; \<^verbatim>\<open>imported\<close> grows by the length of the batch.\<close>

definition flush :: "'db storage \<Rightarrow> 'db import_state \<Rightarrow> 'db import_state" where
  "flush sto st =
     st\<lparr>db := bulk_create_batch sto (batch st) (db st),
        imported := imported st + length (batch st),
        batch := []\<rparr>"

text \<open>The second half of the loop body: counters, the duplicate check and the batch.\<close>

definition import_entry ::
  "'db storage \<Rightarrow> import_config \<Rightarrow> outcome \<Rightarrow> 'db import_state \<Rightarrow> 'db import_state" where
  "import_entry sto cfg oc st =
     (case oc of
        Adult \<Rightarrow> st\<lparr>skipped_adult := skipped_adult st + 1\<rparr>
      | Unpopular \<Rightarrow> st\<lparr>skipped_unpopular := skipped_unpopular st + 1\<rparr>
      | Invalid \<Rightarrow> st\<lparr>skipped_invalid := skipped_invalid st + 1\<rparr>
      | Fields rec \<Rightarrow>
          if tmdb_id rec \<in> existing_ids st
          then st\<lparr>skipped_existing := skipped_existing st + 1\<rparr>
          else
            (let st1 = st\<lparr>existing_ids := insert (tmdb_id rec) (existing_ids st),
                          batch := batch st @ [rec]\<rparr>
             in if int (length (batch st1)) \<ge> batch_size cfg then flush sto st1 else st1))"

text \<open>
  The \<^verbatim>\<open>for\<close> loop: the limit is tested against \<^verbatim>\<open>imported\<close> before each entry
  (\<^verbatim>\<open>break\<close>), and an exception of the body leaves the loop.
\<close>

fun import_loop ::
  "pylib \<Rightarrow> 'db storage \<Rightarrow> import_config \<Rightarrow> movie_data list \<Rightarrow> 'db import_state
    \<Rightarrow> pyexc + 'db import_state" where
  "import_loop lib sto cfg [] st = Inr st"
| "import_loop lib sto cfg (md # rest) st =
     (if int (imported st) \<ge> limit cfg then Inr st
      else
        (case entry_outcome lib cfg md of
           Inl e \<Rightarrow> Inl e
         | Inr oc \<Rightarrow>
             import_loop lib sto cfg rest
               (import_entry sto cfg oc (st\<lparr>processed := processed st + 1\<rparr>))))"

text \<open>
  The statement after the loop and the handler of KeyboardInterrupt are the same three
  lines: a non-empty pending batch is committed and counted.
\<close>

definition final_batch :: "'db storage \<Rightarrow> 'db import_state \<Rightarrow> 'db import_state" where
  "final_batch sto st =
     (if batch st \<noteq> [] then
        st\<lparr>db := bulk_create_batch sto (batch st) (db st),
           imported := imported st + length (batch st)\<rparr>
      else st)"


definition initial_state :: "'db storage \<Rightarrow> 'db \<Rightarrow> 'db import_state" where
  "initial_state sto d =
     \<lparr>imported = 0, skipped_existing = 0, skipped_invalid = 0, skipped_adult = 0,
      skipped_unpopular = 0, processed = 0, batch = [],
      existing_ids = query_existing_ids sto d, db = d\<rparr>"

text \<open>A run over the whole stream, with the final state of every variable.\<close>

definition import_run ::
  "pylib \<Rightarrow> 'db storage \<Rightarrow> import_config \<Rightarrow> 'db \<Rightarrow> movie_data list
    \<Rightarrow> pyexc + 'db import_state" where
  "import_run lib sto cfg d entries =
     ebind (import_loop lib sto cfg entries (initial_state sto d)) (\<lambda>st.
       Inr (final_batch sto st))"

text \<open>\<^verbatim>\<open>bulk_import_tmdb\<close> returns \<^verbatim>\<open>(imported, skipped_existing, processed)\<close>.\<close>

definition bulk_import_tmdb ::
  "pylib \<Rightarrow> 'db storage \<Rightarrow> import_config \<Rightarrow> 'db \<Rightarrow> movie_data list
    \<Rightarrow> pyexc + nat \<times> nat \<times> nat" where
  "bulk_import_tmdb lib sto cfg d entries =
     ebind (import_run lib sto cfg d entries) (\<lambda>st.
       Inr (imported st, skipped_existing st, processed st))"


text \<open>
  The loop fed by the tabular parser. \<^verbatim>\<open>_stream_with_csv\<close> and
  \<^verbatim>\<open>_stream_with_pandas\<close> are generators: each time the \<^verbatim>\<open>for\<close> statement asks
  for an entry they convert rows until one gives a record (\<^verbatim>\<open>if movie: yield movie\<close>),
  so a row that converts to None is passed over before the loop body, and its limit
  test, is reached.
\<close>

fun import_loop_csv ::
  "pylib \<Rightarrow> 'db storage \<Rightarrow> import_config \<Rightarrow> bool \<Rightarrow> int \<Rightarrow> (string \<times> pyval) list list
    \<Rightarrow> 'db import_state \<Rightarrow> pyexc + 'db import_state" where
  "import_loop_csv lib sto cfg only_released min_votes [] st = Inr st"
| "import_loop_csv lib sto cfg only_released min_votes (row # rows) st =
     (case row_to_movie lib row only_released min_votes of
        Inl e \<Rightarrow> Inl e
      | Inr None \<Rightarrow> import_loop_csv lib sto cfg only_released min_votes rows st
      | Inr (Some movie) \<Rightarrow>
          if int (imported st) \<ge> limit cfg then Inr st
          else import_loop_csv lib sto cfg only_released min_votes rows
                 (import_entry sto cfg (Fields movie) (st\<lparr>processed := processed st + 1\<rparr>)))"


section \<open>Reference instances of the parameters\<close>

text \<open>
  A database held in memory: the rows in insertion order, with the unique constraint
  on \<^verbatim>\<open>tmdb_id\<close>. \<open>refused\<close> marks the rows the database cannot store. A bulk insert
  that ignores conflicts passes over a row whose identifier is already stored, and fails
  as a whole when one of its rows is refused; a single save fails on a refused row and
  on a conflict.
\<close>

definition insert_ignore :: "movie_fields list \<Rightarrow> movie_fields \<Rightarrow> movie_fields list" where
  "insert_ignore d m = (if tmdb_id m \<in> set (map tmdb_id d) then d else d @ [m])"

definition memory_storage :: "(movie_fields \<Rightarrow> bool) \<Rightarrow> movie_fields list storage" where
  "memory_storage refused =
     \<lparr>query_existing_ids = (\<lambda>d. set (map tmdb_id d)),
      bulk_create = (\<lambda>d b. if list_ex refused b then None else Some (foldl insert_ignore d b)),
      save = (\<lambda>d m. if refused m \<or> tmdb_id m \<in> set (map tmdb_id d) then None
                     else Some (d @ [m]))\<rparr>"

text \<open>
  A store that keeps every record it is handed, in the order of arrival, and reports
  the identifiers \<open>known\<close> as stored: its rows are the records that the supervisor
  passed to the committer.
\<close>

definition recording_storage :: "int set \<Rightarrow> movie_fields list storage" where
  "recording_storage known =
     \<lparr>query_existing_ids = (\<lambda>d. known),
      bulk_create = (\<lambda>d b. Some (d @ b)),
      save = (\<lambda>d m. Some (d @ [m]))\<rparr>"

text \<open>
  A library that knows a few numerals: \<^verbatim>\<open>float\<close> reads the listed texts, each of
  which denotes a number a float holds exactly, and raises ValueError on every other
  text; every integer converts exactly; the decoders reject every text. Its printing of
  floats and containers is a placeholder; no property below evaluates it.
\<close>

definition float_table :: "(string \<times> pyfloat) list" where
  "float_table =
     [(''0'', Fin 0), (''0.5'', Fin (1 / 2)), (''-3.5'', Fin (- (7 / 2))), (''603'', Fin 603)]"

definition plain_lib :: pylib where
  "plain_lib =
     \<lparr>float_of_str = map_of float_table,
      float_of_big_int = (\<lambda>i. Some (Fin (of_int i))),
      str_of_float = (\<lambda>r. str_of_int \<lfloor>r\<rfloor>),
      repr_of = (\<lambda>v. []),
      json_loads = (\<lambda>s. Inl JSONDecodeError),
      literal_eval = (\<lambda>s. Inl ValueError)\<rparr>"

text \<open>
  A library whose \<^verbatim>\<open>json.loads\<close> decodes the listed texts (and rejects every other
  text with JSONDecodeError) and whose \<^verbatim>\<open>ast.literal_eval\<close> raises the listed
  exceptions (and ValueError on every other text).
\<close>

definition table_lib :: "(string \<times> pyval) list \<Rightarrow> (string \<times> pyexc) list \<Rightarrow> pylib" where
  "table_lib decoded raised =
     plain_lib\<lparr>
       json_loads := (\<lambda>s. case map_of decoded s of
                              Some v \<Rightarrow> Inr v
                            | None \<Rightarrow> Inl JSONDecodeError),
       literal_eval := (\<lambda>s. case map_of raised s of
                                Some e \<Rightarrow> Inl e
                              | None \<Rightarrow> Inl ValueError)\<rparr>"

definition refuse_none :: "movie_fields \<Rightarrow> bool" where
  "refuse_none m = False"

text \<open>A database that cannot store the row with the identifier \<open>i\<close>.\<close>

definition refuse_id :: "int \<Rightarrow> movie_fields \<Rightarrow> bool" where
  "refuse_id i m = (tmdb_id m = i)"

text \<open>The record the tabular parser emits for a row that holds only an identifier,
  the title \<^verbatim>\<open>T\<close> and the release date \<^verbatim>\<open>2000-01-01\<close>.\<close>

definition plain_movie :: "int \<Rightarrow> movie_fields" where
  "plain_movie i =
     \<lparr>tmdb_id = i, title = PStr ''T'', year = 2000, genres = [], overview = PStr [],
      poster_path = [], popularity = Fin 0, language = PStr [], imdb_id = [],
      imdb_rating = None, imdb_votes = [], director = [], writer = [], actors = [],
      released = PStr ''2000-01-01'', country = [], production = [], runtime = None,
      box_office = []\<rparr>"

section \<open>Notions used to state the properties\<close>

text \<open>
  The number of identifiers of a stream that are in the set of known identifiers or
  occur earlier in the stream.
\<close>

fun duplicates :: "int set \<Rightarrow> int list \<Rightarrow> nat" where
  "duplicates known [] = 0"
| "duplicates known (i # rest) = (if i \<in> known then 1 else 0) + duplicates (insert i known) rest"

text \<open>The identifiers of the entries that reach the duplicate check.\<close>

fun outcome_ids :: "outcome list \<Rightarrow> int list" where
  "outcome_ids [] = []"
| "outcome_ids (Fields f # rest) = tmdb_id f # outcome_ids rest"
| "outcome_ids (_ # rest) = outcome_ids rest"

text \<open>The records accepted so far: those committed and those in the pending batch.\<close>

definition accepted :: "'db import_state \<Rightarrow> nat" where
  "accepted st = imported st + length (batch st)"

text \<open>
  The records of a stream whose identifier is neither known nor carried by an earlier
  record of the stream.
\<close>

fun first_seen :: "int set \<Rightarrow> movie_fields list \<Rightarrow> movie_fields list" where
  "first_seen known [] = []"
| "first_seen known (f # rest) =
     (if tmdb_id f \<in> known then first_seen known rest
      else f # first_seen (insert (tmdb_id f) known) rest)"


section \<open>Properties of the supervisor loop\<close>

lemma flush_fields [simp]:
  "imported (flush sto st) = imported st + length (batch st)"
  "batch (flush sto st) = []"
  "skipped_existing (flush sto st) = skipped_existing st"
  "skipped_invalid (flush sto st) = skipped_invalid st"
  "skipped_adult (flush sto st) = skipped_adult st"
  "skipped_unpopular (flush sto st) = skipped_unpopular st"
  "processed (flush sto st) = processed st"
  "existing_ids (flush sto st) = existing_ids st"
  "db (flush sto st) = bulk_create_batch sto (batch st) (db st)"
  by (simp_all add: flush_def)

lemma accepted_flush [simp]: "accepted (flush sto st) = accepted st"
  by (simp add: accepted_def)

lemma final_batch_fields [simp]:
  "imported (final_batch sto st) = accepted st"
  "skipped_existing (final_batch sto st) = skipped_existing st"
  "skipped_invalid (final_batch sto st) = skipped_invalid st"
  "skipped_adult (final_batch sto st) = skipped_adult st"
  "skipped_unpopular (final_batch sto st) = skipped_unpopular st"
  "processed (final_batch sto st) = processed st"
  "existing_ids (final_batch sto st) = existing_ids st"
  by (simp_all add: final_batch_def accepted_def)

lemma entry_known:
  assumes "tmdb_id f \<in> existing_ids st"
  shows "accepted (import_entry sto cfg (Fields f) st) = accepted st"
    and "skipped_existing (import_entry sto cfg (Fields f) st) = skipped_existing st + 1"
    and "existing_ids (import_entry sto cfg (Fields f) st) = existing_ids st"
    and "processed (import_entry sto cfg (Fields f) st) = processed st"
  using assms by (simp_all add: import_entry_def accepted_def)

lemma entry_new:
  assumes "tmdb_id f \<notin> existing_ids st"
  shows "accepted (import_entry sto cfg (Fields f) st) = accepted st + 1"
    and "skipped_existing (import_entry sto cfg (Fields f) st) = skipped_existing st"
    and "existing_ids (import_entry sto cfg (Fields f) st) = insert (tmdb_id f) (existing_ids st)"
    and "processed (import_entry sto cfg (Fields f) st) = processed st"
  using assms by (simp_all add: import_entry_def Let_def accepted_def)

lemma duplicates_le: "duplicates known ids \<le> length ids"
proof (induction ids arbitrary: known)
  case Nil
  then show ?case by simp
next
  case (Cons i rest)
  from Cons.IH[of "insert i known"] show ?case by simp
qed

lemma duplicates_all: "duplicates known ids = length ids \<Longrightarrow> set ids \<subseteq> known"
proof (induction ids arbitrary: known)
  case Nil
  then show ?case by simp
next
  case (Cons i rest)
  have le: "duplicates (insert i known) rest \<le> length rest" by (rule duplicates_le)
  from Cons.prems le have mem: "i \<in> known" by (auto split: if_splits)
  with Cons.prems have "duplicates (insert i known) rest = length rest" by simp
  then have "set rest \<subseteq> insert i known" by (rule Cons.IH)
  with mem show ?case by auto
qed

lemma loop_conservation:
  assumes "map (entry_outcome lib cfg) entries = map (\<lambda>f. Inr (Fields f)) fs"
    and "int (accepted st + (length fs - duplicates (existing_ids st) (map tmdb_id fs))) \<le> limit cfg"
  shows "\<exists>st'. import_loop lib sto cfg entries st = Inr st'
          \<and> accepted st' = accepted st + (length fs - duplicates (existing_ids st) (map tmdb_id fs))
          \<and> skipped_existing st' \<le> skipped_existing st + duplicates (existing_ids st) (map tmdb_id fs)
          \<and> (int (accepted st + (length fs - duplicates (existing_ids st) (map tmdb_id fs))) < limit cfg
               \<longrightarrow> skipped_existing st' = skipped_existing st + duplicates (existing_ids st) (map tmdb_id fs)
                 \<and> processed st' = processed st + length fs)
          \<and> existing_ids st' = existing_ids st \<union> set (map tmdb_id fs)"
  using assms
proof (induction entries arbitrary: fs st)
  case Nil
  then show ?case by simp
next
  case (Cons e rest)
  from Cons.prems(1) obtain f fs' where fs: "fs = f # fs'"
    and oc: "entry_outcome lib cfg e = Inr (Fields f)"
    and rest: "map (entry_outcome lib cfg) rest = map (\<lambda>f. Inr (Fields f)) fs'"
    by (cases fs) auto
  let ?E = "existing_ids st"
  let ?d' = "duplicates (insert (tmdb_id f) ?E) (map tmdb_id fs')"
  have d'le: "?d' \<le> length fs'" using duplicates_le[of "insert (tmdb_id f) ?E" "map tmdb_id fs'"] by simp
  show ?case
  proof (cases "int (imported st) \<ge> limit cfg")
    case True
    have "imported st \<le> accepted st" by (simp add: accepted_def)
    with True Cons.prems(2)
    have zero: "length fs - duplicates ?E (map tmdb_id fs) = 0" by linarith
    moreover have "duplicates ?E (map tmdb_id fs) \<le> length (map tmdb_id fs)" by (rule duplicates_le)
    ultimately have "duplicates ?E (map tmdb_id fs) = length (map tmdb_id fs)" by simp
    then have sub: "set (map tmdb_id fs) \<subseteq> ?E" by (rule duplicates_all)
    have notlt: "\<not> int (accepted st) < limit cfg"
      using True \<open>imported st \<le> accepted st\<close> by linarith
    from True zero sub notlt show ?thesis by (auto simp: fs)
  next
    case False
    let ?st0 = "st\<lparr>processed := processed st + 1\<rparr>"
    let ?st1 = "import_entry sto cfg (Fields f) ?st0"
    have step: "import_loop lib sto cfg (e # rest) st = import_loop lib sto cfg rest ?st1"
      using False oc by simp
    show ?thesis
    proof (cases "tmdb_id f \<in> ?E")
      case True
      have ins: "insert (tmdb_id f) ?E = ?E" using True by auto
      have E1: "existing_ids ?st1 = ?E" and a1: "accepted ?st1 = accepted st"
        and s1: "skipped_existing ?st1 = skipped_existing st + 1"
        and p1: "processed ?st1 = processed st + 1"
        using entry_known[of f ?st0 sto cfg] True by (simp_all add: accepted_def)
      have dup: "duplicates ?E (map tmdb_id fs) = 1 + ?d'" using True by (simp add: fs)
      have new: "length fs - duplicates ?E (map tmdb_id fs) = length fs' - ?d'"
        using True by (simp add: fs)
      from Cons.prems(2) have pre: "int (accepted ?st1 + (length fs' - duplicates (existing_ids ?st1) (map tmdb_id fs'))) \<le> limit cfg"
        unfolding E1 a1 new[symmetric] using new ins by simp
      from Cons.IH[OF rest pre] obtain st' where
        "import_loop lib sto cfg rest ?st1 = Inr st'"
        "accepted st' = accepted ?st1 + (length fs' - duplicates (existing_ids ?st1) (map tmdb_id fs'))"
        "skipped_existing st' \<le> skipped_existing ?st1 + duplicates (existing_ids ?st1) (map tmdb_id fs')"
        "int (accepted ?st1 + (length fs' - duplicates (existing_ids ?st1) (map tmdb_id fs'))) < limit cfg
               \<longrightarrow> skipped_existing st' = skipped_existing ?st1 + duplicates (existing_ids ?st1) (map tmdb_id fs')
                 \<and> processed st' = processed ?st1 + length fs'"
        "existing_ids st' = existing_ids ?st1 \<union> set (map tmdb_id fs')"
        by blast
      then show ?thesis
        unfolding step E1 a1 s1 p1 using True ins dup new d'le by (auto simp: fs)
    next
      case False
      have E1: "existing_ids ?st1 = insert (tmdb_id f) ?E" and a1: "accepted ?st1 = accepted st + 1"
        and s1: "skipped_existing ?st1 = skipped_existing st"
        and p1: "processed ?st1 = processed st + 1"
        using entry_new[of f ?st0 sto cfg] False by (simp_all add: accepted_def)
      have dup: "duplicates ?E (map tmdb_id fs) = ?d'" using False by (simp add: fs)
      have new: "length fs - duplicates ?E (map tmdb_id fs) = 1 + (length fs' - ?d')"
        using d'le False by (simp add: fs)
      from Cons.prems(2) have pre: "int (accepted ?st1 + (length fs' - duplicates (existing_ids ?st1) (map tmdb_id fs'))) \<le> limit cfg"
        unfolding E1 a1 using new by simp
      from Cons.IH[OF rest pre] obtain st' where
        "import_loop lib sto cfg rest ?st1 = Inr st'"
        "accepted st' = accepted ?st1 + (length fs' - duplicates (existing_ids ?st1) (map tmdb_id fs'))"
        "skipped_existing st' \<le> skipped_existing ?st1 + duplicates (existing_ids ?st1) (map tmdb_id fs')"
        "int (accepted ?st1 + (length fs' - duplicates (existing_ids ?st1) (map tmdb_id fs'))) < limit cfg
               \<longrightarrow> skipped_existing st' = skipped_existing ?st1 + duplicates (existing_ids ?st1) (map tmdb_id fs')
                 \<and> processed st' = processed ?st1 + length fs'"
        "existing_ids st' = existing_ids ?st1 \<union> set (map tmdb_id fs')"
        by blast
      then show ?thesis
        unfolding step E1 a1 s1 p1 using False dup new d'le by (auto simp: fs)
    qed
  qed
qed

lemma initial_state_fields [simp]:
  "imported (initial_state sto d) = 0"
  "batch (initial_state sto d) = []"
  "skipped_existing (initial_state sto d) = 0"
  "skipped_invalid (initial_state sto d) = 0"
  "skipped_adult (initial_state sto d) = 0"
  "skipped_unpopular (initial_state sto d) = 0"
  "processed (initial_state sto d) = 0"
  "existing_ids (initial_state sto d) = query_existing_ids sto d"
  "db (initial_state sto d) = d"
  by (simp_all add: initial_state_def)

lemma recording_storage_fields [simp]:
  "query_existing_ids (recording_storage known) d = known"
  "bulk_create (recording_storage known) d b = Some (d @ b)"
  "save (recording_storage known) d m = Some (d @ [m])"
  by (simp_all add: recording_storage_def)

lemma first_seen_length:
  "length (first_seen known fs) = length fs - duplicates known (map tmdb_id fs)"
proof (induction fs arbitrary: known)
  case Nil
  then show ?case by simp
next
  case (Cons f rest)
  have "duplicates (insert (tmdb_id f) known) (map tmdb_id rest) \<le> length rest"
    using duplicates_le[of "insert (tmdb_id f) known" "map tmdb_id rest"] by simp
  with Cons.IH[of "insert (tmdb_id f) known"] Cons.IH[of known] show ?case
    by (auto simp: insert_absorb)
qed

lemma first_seen_ids:
  "set (map tmdb_id (first_seen known fs)) = set (map tmdb_id fs) - known"
  by (induction fs arbitrary: known) auto

lemma first_seen_distinct: "distinct (map tmdb_id (first_seen known fs))"
proof (induction fs arbitrary: known)
  case Nil
  then show ?case by simp
next
  case (Cons f rest)
  have "tmdb_id f \<notin> set (map tmdb_id (first_seen (insert (tmdb_id f) known) rest))"
    unfolding first_seen_ids by simp
  with Cons.IH show ?case by simp
qed

lemma first_seen_known: "set (map tmdb_id fs) \<subseteq> known \<Longrightarrow> first_seen known fs = []"
  by (induction fs) simp_all

lemma entry_handed:
  "db (import_entry (recording_storage known) cfg (Fields f) st)
      @ batch (import_entry (recording_storage known) cfg (Fields f) st)
   = db st @ batch st @ first_seen (existing_ids st) [f]"
  by (simp add: import_entry_def Let_def flush_def bulk_create_batch_def)

lemma first_seen_Cons:
  "first_seen known (f # rest)
     = first_seen known [f] @ first_seen (insert (tmdb_id f) known) rest"
  by (simp add: insert_absorb)

lemma loop_handed:
  assumes "import_loop lib (recording_storage known) cfg entries st = Inr st'"
    and "map (entry_outcome lib cfg) entries = map (\<lambda>f. Inr (Fields f)) fs"
    and "int (accepted st + (length fs - duplicates (existing_ids st) (map tmdb_id fs))) \<le> limit cfg"
  shows "db st' @ batch st' = db st @ batch st @ first_seen (existing_ids st) fs"
  using assms
proof (induction entries arbitrary: fs st)
  case Nil
  then show ?case by simp
next
  case (Cons e rest)
  from Cons.prems(2) obtain f fs' where fs: "fs = f # fs'"
    and oc: "entry_outcome lib cfg e = Inr (Fields f)"
    and rest: "map (entry_outcome lib cfg) rest = map (\<lambda>f. Inr (Fields f)) fs'"
    by (cases fs) auto
  let ?E = "existing_ids st"
  let ?sto = "recording_storage known"
  show ?case
  proof (cases "int (imported st) \<ge> limit cfg")
    case True
    have "imported st \<le> accepted st" by (simp add: accepted_def)
    with True Cons.prems(3)
    have "length fs - duplicates ?E (map tmdb_id fs) = 0" by linarith
    moreover have "duplicates ?E (map tmdb_id fs) \<le> length (map tmdb_id fs)" by (rule duplicates_le)
    ultimately have "duplicates ?E (map tmdb_id fs) = length (map tmdb_id fs)" by simp
    then have "set (map tmdb_id fs) \<subseteq> ?E" by (rule duplicates_all)
    then have "first_seen ?E fs = []" by (rule first_seen_known)
    with True Cons.prems(1) show ?thesis by simp
  next
    case False
    let ?st0 = "st\<lparr>processed := processed st + 1\<rparr>"
    let ?st1 = "import_entry ?sto cfg (Fields f) ?st0"
    have run: "import_loop lib ?sto cfg rest ?st1 = Inr st'"
      using Cons.prems(1) False oc by simp
    have E1: "existing_ids ?st1 = insert (tmdb_id f) ?E"
      and a1: "accepted ?st1 = accepted st + length (first_seen ?E [f])"
    proof -
      show "existing_ids ?st1 = insert (tmdb_id f) ?E"
      proof (cases "tmdb_id f \<in> ?E")
        case True
        then show ?thesis using entry_known(3)[of f ?st0 ?sto cfg] by (simp add: insert_absorb)
      next
        case False
        then show ?thesis using entry_new(3)[of f ?st0 ?sto cfg] by simp
      qed
      show "accepted ?st1 = accepted st + length (first_seen ?E [f])"
      proof (cases "tmdb_id f \<in> ?E")
        case True
        then show ?thesis using entry_known(1)[of f ?st0 ?sto cfg] by (simp add: accepted_def)
      next
        case False
        then show ?thesis using entry_new(1)[of f ?st0 ?sto cfg] by (simp add: accepted_def)
      qed
    qed
    have d'le: "duplicates (insert (tmdb_id f) ?E) (map tmdb_id fs') \<le> length fs'"
      using duplicates_le[of "insert (tmdb_id f) ?E" "map tmdb_id fs'"] by simp
    have new: "length fs - duplicates ?E (map tmdb_id fs)
        = length (first_seen ?E [f]) + (length fs' - duplicates (insert (tmdb_id f) ?E) (map tmdb_id fs'))"
      using d'le by (auto simp: fs)
    have pre: "int (accepted ?st1 + (length fs' - duplicates (existing_ids ?st1) (map tmdb_id fs'))) \<le> limit cfg"
      using Cons.prems(3) unfolding E1 a1 new by simp
    have h1: "db ?st1 @ batch ?st1 = db st @ batch st @ first_seen ?E [f]"
      using entry_handed[of known cfg f ?st0] by simp
    from Cons.IH[OF run rest pre]
    have "db st' @ batch st' = db ?st1 @ batch ?st1 @ first_seen (existing_ids ?st1) fs'" .
    then show ?thesis
      unfolding E1 fs first_seen_Cons[of ?E f fs'] using h1 by simp
  qed
qed

text \<open>
  Claim C1, as amended. Let a stream consist of \<open>N\<close> entries that all reach the duplicate
  check (their records are \<open>fs\<close>), and let \<open>M\<close> of them carry an identifier that is in the
  seeded set or occurs earlier in the stream. If \<open>N - M\<close> does not exceed the limit, the
  run ends with \<open>imported = N - M\<close> and \<open>skipped_existing \<le> M\<close>, for every batch size and
  every storage; if \<open>N - M\<close> is below the limit, every entry is examined and
  \<open>skipped_existing = M\<close>. An identifier is accepted at most once and is added to the set
  of known identifiers exactly when it is first accepted: the set ends as the seeded set
  with the identifiers of the stream, and the records handed to the committer, as a store
  that keeps every record it is handed shows them, are the first occurrences of the
  identifiers that were not seeded, each once, \<open>imported\<close> in number.
\<close>

theorem conservation_law:
  assumes "map (entry_outcome lib cfg) entries = map (\<lambda>f. Inr (Fields f)) fs"
    and "int (length fs - duplicates (query_existing_ids sto d) (map tmdb_id fs)) \<le> limit cfg"
  shows "\<exists>st rst. import_run lib sto cfg d entries = Inr st
    \<and> imported st = length fs - duplicates (query_existing_ids sto d) (map tmdb_id fs)
    \<and> skipped_existing st \<le> duplicates (query_existing_ids sto d) (map tmdb_id fs)
    \<and> (int (length fs - duplicates (query_existing_ids sto d) (map tmdb_id fs)) < limit cfg
         \<longrightarrow> skipped_existing st = duplicates (query_existing_ids sto d) (map tmdb_id fs)
           \<and> processed st = length fs)
    \<and> existing_ids st = query_existing_ids sto d \<union> set (map tmdb_id fs)
    \<and> import_run lib (recording_storage (query_existing_ids sto d)) cfg [] entries = Inr rst
    \<and> imported rst = imported st
    \<and> existing_ids rst = existing_ids st
    \<and> db rst = first_seen (query_existing_ids sto d) fs
    \<and> length (db rst) = imported st
    \<and> distinct (map tmdb_id (db rst))
    \<and> set (map tmdb_id (db rst)) = existing_ids st - query_existing_ids sto d"
proof -
  let ?E0 = "query_existing_ids sto d"
  let ?n = "length fs - duplicates ?E0 (map tmdb_id fs)"
  let ?st0 = "initial_state sto d"
  let ?rec = "recording_storage ?E0"
  let ?rt0 = "initial_state ?rec []"
  have pre: "int (accepted ?st0 + (length fs - duplicates (existing_ids ?st0) (map tmdb_id fs))) \<le> limit cfg"
    using assms(2) by (simp add: accepted_def)
  from loop_conservation[OF assms(1) pre, of sto] obtain st' where
    run: "import_loop lib sto cfg entries ?st0 = Inr st'"
    and facts: "accepted st' = accepted ?st0 + (length fs - duplicates (existing_ids ?st0) (map tmdb_id fs))"
      "skipped_existing st' \<le> skipped_existing ?st0 + duplicates (existing_ids ?st0) (map tmdb_id fs)"
      "int (accepted ?st0 + (length fs - duplicates (existing_ids ?st0) (map tmdb_id fs))) < limit cfg
         \<longrightarrow> skipped_existing st' = skipped_existing ?st0 + duplicates (existing_ids ?st0) (map tmdb_id fs)
           \<and> processed st' = processed ?st0 + length fs"
      "existing_ids st' = existing_ids ?st0 \<union> set (map tmdb_id fs)"
    by blast
  have rpre: "int (accepted ?rt0 + (length fs - duplicates (existing_ids ?rt0) (map tmdb_id fs))) \<le> limit cfg"
    using assms(2) by (simp add: accepted_def)
  from loop_conservation[OF assms(1) rpre, of ?rec] obtain rt' where
    rrun: "import_loop lib ?rec cfg entries ?rt0 = Inr rt'"
    and rfacts: "accepted rt' = accepted ?rt0 + (length fs - duplicates (existing_ids ?rt0) (map tmdb_id fs))"
      "existing_ids rt' = existing_ids ?rt0 \<union> set (map tmdb_id fs)"
    by blast
  have handed: "db rt' @ batch rt' = first_seen ?E0 fs"
    using loop_handed[OF rrun assms(1) rpre] by simp
  let ?st = "final_batch sto st'"
  let ?rst = "final_batch ?rec rt'"
  have r1: "import_run lib sto cfg d entries = Inr ?st"
    by (simp add: import_run_def run ebind_def)
  have r2: "import_run lib ?rec cfg [] entries = Inr ?rst"
    by (simp add: import_run_def rrun ebind_def)
  have dbr: "db ?rst = first_seen ?E0 fs"
    using handed by (auto simp: final_batch_def bulk_create_batch_def)
  have imp: "imported ?st = ?n" using facts(1) by (simp add: accepted_def)
  have rimp: "imported ?rst = ?n" using rfacts(1) by (simp add: accepted_def)
  have ex: "existing_ids ?st = ?E0 \<union> set (map tmdb_id fs)" using facts(4) by simp
  have rex: "existing_ids ?rst = ?E0 \<union> set (map tmdb_id fs)" using rfacts(2) by simp
  have ids: "set (map tmdb_id (db ?rst)) = existing_ids ?st - ?E0"
    unfolding dbr first_seen_ids ex by auto
  have len: "length (db ?rst) = imported ?st"
    unfolding dbr imp by (rule first_seen_length)
  have dist: "distinct (map tmdb_id (db ?rst))" unfolding dbr by (rule first_seen_distinct)
  have sk: "skipped_existing ?st \<le> duplicates ?E0 (map tmdb_id fs)" using facts(2) by simp
  have strict: "int ?n < limit cfg
         \<longrightarrow> skipped_existing ?st = duplicates ?E0 (map tmdb_id fs) \<and> processed ?st = length fs"
    using facts(3) by (simp add: accepted_def)
  show ?thesis
    apply (rule exI[of _ ?st])
    apply (rule exI[of _ ?rst])
    using r1 r2 imp rimp ex rex ids len dist sk strict dbr by simp
qed

theorem conservation_law_witness:
  "map (entry_outcome plain_lib \<lparr>limit = 10, batch_size = 2, skip_adult = True, min_popularity = Fin 0\<rparr>)
     [CsvEntry (plain_movie 1), CsvEntry (plain_movie 2), CsvEntry (plain_movie 2), CsvEntry (plain_movie 3)]
   = map (\<lambda>f. Inr (Fields f)) [plain_movie 1, plain_movie 2, plain_movie 2, plain_movie 3]
   \<and> duplicates (query_existing_ids (memory_storage refuse_none) [plain_movie 1])
        (map tmdb_id [plain_movie 1, plain_movie 2, plain_movie 2, plain_movie 3]) = 2
   \<and> (\<exists>st rst. import_run plain_lib (memory_storage refuse_none)
         \<lparr>limit = 10, batch_size = 2, skip_adult = True, min_popularity = Fin 0\<rparr> [plain_movie 1]
         [CsvEntry (plain_movie 1), CsvEntry (plain_movie 2), CsvEntry (plain_movie 2), CsvEntry (plain_movie 3)]
         = Inr st \<and> imported st = 2 \<and> skipped_existing st = 2 \<and> processed st = 4
         \<and> existing_ids st = {1, 2, 3}
         \<and> import_run plain_lib
             (recording_storage (query_existing_ids (memory_storage refuse_none) [plain_movie 1]))
             \<lparr>limit = 10, batch_size = 2, skip_adult = True, min_popularity = Fin 0\<rparr> []
             [CsvEntry (plain_movie 1), CsvEntry (plain_movie 2), CsvEntry (plain_movie 2), CsvEntry (plain_movie 3)]
           = Inr rst
         \<and> db rst = [plain_movie 2, plain_movie 3])"
proof -
  let ?cfg = "\<lparr>limit = 10, batch_size = 2, skip_adult = True, min_popularity = Fin 0\<rparr>"
  let ?fs = "[plain_movie 1, plain_movie 2, plain_movie 2, plain_movie 3]"
  let ?sto = "memory_storage refuse_none"
  let ?E0 = "query_existing_ids ?sto [plain_movie 1]"
  have h1: "map (entry_outcome plain_lib ?cfg) (map CsvEntry ?fs) = map (\<lambda>f. Inr (Fields f)) ?fs"
    by (simp add: entry_outcome_def)
  have dup: "duplicates ?E0 (map tmdb_id ?fs) = 2"
    by (simp add: memory_storage_def plain_movie_def)
  have h2: "int (length ?fs - duplicates ?E0 (map tmdb_id ?fs)) \<le> limit ?cfg"
    unfolding dup by simp
  have ids: "?E0 \<union> set (map tmdb_id ?fs) = {1, 2, 3}"
    by (auto simp: memory_storage_def plain_movie_def)
  have firsts: "first_seen ?E0 ?fs = [plain_movie 2, plain_movie 3]"
    by (simp add: memory_storage_def plain_movie_def)
  from conservation_law[OF h1 h2] obtain st rst where
    run: "import_run plain_lib ?sto ?cfg [plain_movie 1] (map CsvEntry ?fs) = Inr st"
    and imp: "imported st = length ?fs - duplicates ?E0 (map tmdb_id ?fs)"
    and skip: "int (length ?fs - duplicates ?E0 (map tmdb_id ?fs)) < limit ?cfg
         \<longrightarrow> skipped_existing st = duplicates ?E0 (map tmdb_id ?fs) \<and> processed st = length ?fs"
    and known: "existing_ids st = ?E0 \<union> set (map tmdb_id ?fs)"
    and rrun: "import_run plain_lib (recording_storage ?E0) ?cfg [] (map CsvEntry ?fs) = Inr rst"
    and rdb: "db rst = first_seen ?E0 ?fs"
    by blast
  have "imported st = 2" using imp unfolding dup by simp
  moreover have "skipped_existing st = 2 \<and> processed st = 4" using skip unfolding dup by simp
  moreover have "existing_ids st = {1, 2, 3}" using known unfolding ids .
  moreover have "db rst = [plain_movie 2, plain_movie 3]" using rdb unfolding firsts .
  ultimately have "\<exists>st rst. import_run plain_lib ?sto ?cfg [plain_movie 1] (map CsvEntry ?fs) = Inr st
      \<and> imported st = 2 \<and> skipped_existing st = 2 \<and> processed st = 4 \<and> existing_ids st = {1, 2, 3}
      \<and> import_run plain_lib (recording_storage ?E0) ?cfg [] (map CsvEntry ?fs) = Inr rst
      \<and> db rst = [plain_movie 2, plain_movie 3]"
    using run rrun by blast
  with h1 dup show ?thesis by simp
qed

text \<open>
  At the boundary \<open>N - M = limit\<close> the loop can stop before it examines a trailing
  duplicate: with limit 1, batch size 1 and the stream of identifiers 7, 7 the run
  reports \<open>imported = 1\<close> and \<open>skipped_existing = 0\<close>, although \<open>M = 1\<close>.
\<close>

theorem conservation_boundary_counterexample:
  "bulk_import_tmdb plain_lib (memory_storage refuse_none)
     \<lparr>limit = 1, batch_size = 1, skip_adult = True, min_popularity = Fin 0\<rparr> []
     [CsvEntry (plain_movie 7), CsvEntry (plain_movie 7)] = Inr (1, 0, 1)
   \<and> duplicates (query_existing_ids (memory_storage refuse_none) []) [7, 7] = 1
   \<and> int (2 - 1) \<le> limit \<lparr>limit = 1, batch_size = 1, skip_adult = True, min_popularity = Fin 0\<rparr>"
  by (simp add: bulk_import_tmdb_def import_run_def initial_state_def memory_storage_def ebind_def
      entry_outcome_def import_entry_def flush_def final_batch_def bulk_create_batch_def
      insert_ignore_def plain_movie_def refuse_none_def)

lemma entry_other:
  assumes "oc = Adult \<or> oc = Unpopular \<or> oc = Invalid"
  shows "accepted (import_entry sto cfg oc st) = accepted st"
    and "imported (import_entry sto cfg oc st) = imported st"
    and "batch (import_entry sto cfg oc st) = batch st"
    and "db (import_entry sto cfg oc st) = db st"
    and "skipped_existing (import_entry sto cfg oc st) = skipped_existing st"
    and "existing_ids (import_entry sto cfg oc st) = existing_ids st"
    and "processed (import_entry sto cfg oc st) = processed st"
    and "skipped_adult (import_entry sto cfg oc st) = skipped_adult st + (if oc = Adult then 1 else 0)"
    and "skipped_unpopular (import_entry sto cfg oc st) = skipped_unpopular st + (if oc = Unpopular then 1 else 0)"
    and "skipped_invalid (import_entry sto cfg oc st) = skipped_invalid st + (if oc = Invalid then 1 else 0)"
  using assms by (auto simp: import_entry_def accepted_def)

lemma entry_fields_counters:
  "skipped_adult (import_entry sto cfg (Fields f) st) = skipped_adult st"
  "skipped_unpopular (import_entry sto cfg (Fields f) st) = skipped_unpopular st"
  "skipped_invalid (import_entry sto cfg (Fields f) st) = skipped_invalid st"
  "processed (import_entry sto cfg (Fields f) st) = processed st"
  by (simp_all add: import_entry_def Let_def)

lemma entry_known_state:
  assumes "tmdb_id f \<in> existing_ids st"
  shows "imported (import_entry sto cfg (Fields f) st) = imported st"
    and "batch (import_entry sto cfg (Fields f) st) = batch st"
    and "db (import_entry sto cfg (Fields f) st) = db st"
  using assms by (simp_all add: import_entry_def)

text \<open>The counters of a whole stream of outcomes.\<close>

lemma entry_counts:
  "skipped_adult (import_entry sto cfg oc st) = skipped_adult st + count_list [oc] Adult"
  "skipped_unpopular (import_entry sto cfg oc st) = skipped_unpopular st + count_list [oc] Unpopular"
  "skipped_invalid (import_entry sto cfg oc st) = skipped_invalid st + count_list [oc] Invalid"
  "processed (import_entry sto cfg oc st) = processed st"
  "accepted (import_entry sto cfg oc st) + skipped_existing (import_entry sto cfg oc st)
     = accepted st + skipped_existing st + length (outcome_ids [oc])"
  "existing_ids (import_entry sto cfg oc st) = existing_ids st \<union> set (outcome_ids [oc])"
proof -
  show "skipped_adult (import_entry sto cfg oc st) = skipped_adult st + count_list [oc] Adult"
    by (cases oc) (simp_all add: import_entry_def Let_def)
  show "skipped_unpopular (import_entry sto cfg oc st) = skipped_unpopular st + count_list [oc] Unpopular"
    by (cases oc) (simp_all add: import_entry_def Let_def)
  show "skipped_invalid (import_entry sto cfg oc st) = skipped_invalid st + count_list [oc] Invalid"
    by (cases oc) (simp_all add: import_entry_def Let_def)
  show "processed (import_entry sto cfg oc st) = processed st"
    by (cases oc) (simp_all add: import_entry_def Let_def)
  show "accepted (import_entry sto cfg oc st) + skipped_existing (import_entry sto cfg oc st)
     = accepted st + skipped_existing st + length (outcome_ids [oc])"
    by (cases oc) (simp_all add: import_entry_def Let_def accepted_def)
  show "existing_ids (import_entry sto cfg oc st) = existing_ids st \<union> set (outcome_ids [oc])"
    by (cases oc) (auto simp: import_entry_def Let_def)
qed

lemma outcome_ids_append: "outcome_ids (os @ os') = outcome_ids os @ outcome_ids os'"
  by (induction os rule: outcome_ids.induct) simp_all

lemma outcome_ids_Cons: "outcome_ids (oc # os) = outcome_ids [oc] @ outcome_ids os"
  using outcome_ids_append[of "[oc]" os] by simp

lemma loop_unbroken:
  assumes "import_loop lib sto cfg entries st = Inr st'"
    and "processed st' = processed st + length entries"
  shows "\<exists>os. map (entry_outcome lib cfg) entries = map Inr os
          \<and> (entries \<noteq> [] \<longrightarrow> int (imported st) < limit cfg)
          \<and> skipped_adult st' = skipped_adult st + count_list os Adult
          \<and> skipped_unpopular st' = skipped_unpopular st + count_list os Unpopular
          \<and> skipped_invalid st' = skipped_invalid st + count_list os Invalid
          \<and> accepted st' + skipped_existing st' = accepted st + skipped_existing st + length (outcome_ids os)
          \<and> existing_ids st' = existing_ids st \<union> set (outcome_ids os)"
  using assms
proof (induction entries arbitrary: st)
  case Nil
  then show ?case by simp
next
  case (Cons e rest)
  have nobreak: "\<not> int (imported st) \<ge> limit cfg"
  proof
    assume "int (imported st) \<ge> limit cfg"
    with Cons.prems(1) have "st' = st" by simp
    with Cons.prems(2) show False by simp
  qed
  from Cons.prems(1) nobreak obtain oc where oc: "entry_outcome lib cfg e = Inr oc"
    by (cases "entry_outcome lib cfg e") auto
  let ?st1 = "import_entry sto cfg oc (st\<lparr>processed := processed st + 1\<rparr>)"
  have run: "import_loop lib sto cfg rest ?st1 = Inr st'"
    using Cons.prems(1) nobreak oc by simp
  have p1: "processed ?st1 = processed st + 1" by (simp add: entry_counts)
  have "processed st' = processed ?st1 + length rest" using Cons.prems(2) p1 by simp
  from Cons.IH[OF run this] obtain os where
    os: "map (entry_outcome lib cfg) rest = map Inr os"
    and c: "skipped_adult st' = skipped_adult ?st1 + count_list os Adult"
      "skipped_unpopular st' = skipped_unpopular ?st1 + count_list os Unpopular"
      "skipped_invalid st' = skipped_invalid ?st1 + count_list os Invalid"
      "accepted st' + skipped_existing st' = accepted ?st1 + skipped_existing ?st1 + length (outcome_ids os)"
      "existing_ids st' = existing_ids ?st1 \<union> set (outcome_ids os)"
    by blast
  have a1: "accepted ?st1 + skipped_existing ?st1 = accepted st + skipped_existing st + length (outcome_ids [oc])"
    using entry_counts(5)[of sto cfg oc "st\<lparr>processed := processed st + 1\<rparr>"] by (simp add: accepted_def)
  have "map (entry_outcome lib cfg) (e # rest) = map Inr (oc # os)" using oc os by simp
  moreover have "int (imported st) < limit cfg" using nobreak by simp
  moreover have "skipped_adult st' = skipped_adult st + count_list (oc # os) Adult"
    using c(1) by (simp add: entry_counts)
  moreover have "skipped_unpopular st' = skipped_unpopular st + count_list (oc # os) Unpopular"
    using c(2) by (simp add: entry_counts)
  moreover have "skipped_invalid st' = skipped_invalid st + count_list (oc # os) Invalid"
    using c(3) by (simp add: entry_counts)
  moreover have "accepted st' + skipped_existing st' = accepted st + skipped_existing st + length (outcome_ids (oc # os))"
    using c(4) a1 by (simp add: outcome_ids_Cons[of oc os])
  moreover have "existing_ids st' = existing_ids st \<union> set (outcome_ids (oc # os))"
    using c(5) by (auto simp: entry_counts outcome_ids_Cons[of oc os])
  ultimately show ?case by blast
qed

lemma loop_all_known:
  assumes "map (entry_outcome lib cfg) entries = map Inr os"
    and "set (outcome_ids os) \<subseteq> existing_ids st"
    and "imported st = 0" and "0 < limit cfg"
  shows "\<exists>st'. import_loop lib sto cfg entries st = Inr st'
          \<and> imported st' = 0 \<and> batch st' = batch st \<and> db st' = db st
          \<and> existing_ids st' = existing_ids st
          \<and> processed st' = processed st + length entries
          \<and> skipped_adult st' = skipped_adult st + count_list os Adult
          \<and> skipped_unpopular st' = skipped_unpopular st + count_list os Unpopular
          \<and> skipped_invalid st' = skipped_invalid st + count_list os Invalid
          \<and> skipped_existing st' = skipped_existing st + length (outcome_ids os)"
  using assms
proof (induction entries arbitrary: os st)
  case Nil
  then show ?case by simp
next
  case (Cons e rest)
  from Cons.prems(1) obtain oc os' where os: "os = oc # os'"
    and oc: "entry_outcome lib cfg e = Inr oc"
    and rest: "map (entry_outcome lib cfg) rest = map Inr os'"
    by (cases os) auto
  let ?st0 = "st\<lparr>processed := processed st + 1\<rparr>"
  let ?st1 = "import_entry sto cfg oc ?st0"
  have step: "import_loop lib sto cfg (e # rest) st = import_loop lib sto cfg rest ?st1"
    using Cons.prems(3,4) oc by simp
  have sub: "set (outcome_ids [oc]) \<subseteq> existing_ids st" "set (outcome_ids os') \<subseteq> existing_ids st"
    using Cons.prems(2) by (simp_all add: os outcome_ids_Cons[of oc os'])
  have same: "imported ?st1 = 0 \<and> batch ?st1 = batch st \<and> db ?st1 = db st
      \<and> existing_ids ?st1 = existing_ids st
      \<and> skipped_existing ?st1 = skipped_existing st + length (outcome_ids [oc])"
    using sub(1) Cons.prems(3) by (cases oc) (simp_all add: import_entry_def)
  have pre: "set (outcome_ids os') \<subseteq> existing_ids ?st1" using sub(2) same by simp
  have imp1: "imported ?st1 = 0" using same by simp
  from Cons.IH[OF rest pre imp1 Cons.prems(4)] obtain st' where
    "import_loop lib sto cfg rest ?st1 = Inr st'"
    "imported st' = 0" "batch st' = batch ?st1" "db st' = db ?st1"
    "existing_ids st' = existing_ids ?st1"
    "processed st' = processed ?st1 + length rest"
    "skipped_adult st' = skipped_adult ?st1 + count_list os' Adult"
    "skipped_unpopular st' = skipped_unpopular ?st1 + count_list os' Unpopular"
    "skipped_invalid st' = skipped_invalid ?st1 + count_list os' Invalid"
    "skipped_existing st' = skipped_existing ?st1 + length (outcome_ids os')"
    by blast
  then show ?case
    unfolding step using same by (simp add: entry_counts os outcome_ids_Cons[of oc os'])
qed

text \<open>
  Claim C2, as amended. If a first run examined every entry of the stream (it was not
  stopped by the record limit), a second run over the same stream with the same
  settings, seeded from any store whose identifiers include every identifier known at
  the end of the first run, imports nothing and writes nothing: every entry accepted or
  skipped as existing before is now counted as existing, and every entry filtered or
  found invalid before is counted under the same reason again.
\<close>

theorem idempotent_resume:
  assumes "import_run lib sto cfg d entries = Inr st1"
    and "processed st1 = length entries"
    and "existing_ids st1 \<subseteq> query_existing_ids sto' d'"
  shows "\<exists>st2. import_run lib sto' cfg d' entries = Inr st2
          \<and> imported st2 = 0 \<and> db st2 = d'
          \<and> skipped_existing st2 = skipped_existing st1 + imported st1
          \<and> skipped_invalid st2 = skipped_invalid st1
          \<and> skipped_adult st2 = skipped_adult st1
          \<and> skipped_unpopular st2 = skipped_unpopular st1
          \<and> processed st2 = processed st1"
proof -
  from assms(1) obtain l1 where l1: "import_loop lib sto cfg entries (initial_state sto d) = Inr l1"
    and st1: "st1 = final_batch sto l1"
    by (auto simp: import_run_def ebind_def split: sum.splits)
  have "processed l1 = processed (initial_state sto d) + length entries"
    using assms(2) st1 by simp
  from loop_unbroken[OF l1 this] obtain os where
    os: "map (entry_outcome lib cfg) entries = map Inr os"
    and lim: "entries \<noteq> [] \<longrightarrow> 0 < limit cfg"
    and c: "skipped_adult l1 = count_list os Adult"
      "skipped_unpopular l1 = count_list os Unpopular"
      "skipped_invalid l1 = count_list os Invalid"
      "accepted l1 + skipped_existing l1 = length (outcome_ids os)"
      "existing_ids l1 = query_existing_ids sto d \<union> set (outcome_ids os)"
    by (auto simp: accepted_def)
  show ?thesis
  proof (cases "entries = []")
    case True
    with os c st1 assms(2) show ?thesis
      by (simp add: import_run_def ebind_def final_batch_def accepted_def)
  next
    case False
    with lim have pos: "0 < limit cfg" by simp
    have sub: "set (outcome_ids os) \<subseteq> existing_ids (initial_state sto' d')"
      using assms(3) c(5) st1 by simp
    from loop_all_known[OF os sub _ pos, of sto'] obtain l2 where
      l2: "import_loop lib sto' cfg entries (initial_state sto' d') = Inr l2"
      and f: "imported l2 = 0" "batch l2 = []" "db l2 = d'"
        "processed l2 = length entries"
        "skipped_adult l2 = count_list os Adult"
        "skipped_unpopular l2 = count_list os Unpopular"
        "skipped_invalid l2 = count_list os Invalid"
        "skipped_existing l2 = length (outcome_ids os)"
      by auto
    have run2: "import_run lib sto' cfg d' entries = Inr (final_batch sto' l2)"
      by (simp add: import_run_def l2 ebind_def)
    have fb: "final_batch sto' l2 = l2" using f(2) by (simp add: final_batch_def)
    show ?thesis
      unfolding run2 fb using f c assms(2) st1 by (simp add: accepted_def)
  qed
qed

lemma run_small:
  "import_run plain_lib (memory_storage refuse_none)
     \<lparr>limit = 10, batch_size = 2, skip_adult = True, min_popularity = Fin 0\<rparr> []
     [CsvEntry (plain_movie 1), CsvEntry (plain_movie 2), CsvEntry (plain_movie 2)]
   = Inr \<lparr>imported = 2, skipped_existing = 1, skipped_invalid = 0, skipped_adult = 0,
       skipped_unpopular = 0, processed = 3, batch = [], existing_ids = {1, 2},
       db = [plain_movie 1, plain_movie 2]\<rparr>"
  by (auto simp: import_run_def initial_state_def memory_storage_def ebind_def
      entry_outcome_def import_entry_def flush_def final_batch_def bulk_create_batch_def
      insert_ignore_def plain_movie_def refuse_none_def)

theorem idempotent_resume_witness:
  "\<exists>st1. import_run plain_lib (memory_storage refuse_none)
       \<lparr>limit = 10, batch_size = 2, skip_adult = True, min_popularity = Fin 0\<rparr> []
       [CsvEntry (plain_movie 1), CsvEntry (plain_movie 2), CsvEntry (plain_movie 2)] = Inr st1
     \<and> processed st1 = 3
     \<and> existing_ids st1 \<subseteq> query_existing_ids (memory_storage refuse_none) (db st1)
     \<and> (\<exists>st2. import_run plain_lib (memory_storage refuse_none)
           \<lparr>limit = 10, batch_size = 2, skip_adult = True, min_popularity = Fin 0\<rparr> (db st1)
           [CsvEntry (plain_movie 1), CsvEntry (plain_movie 2), CsvEntry (plain_movie 2)] = Inr st2
         \<and> imported st2 = 0 \<and> skipped_existing st2 = 3 \<and> db st2 = db st1)"
proof -
  let ?cfg = "\<lparr>limit = 10, batch_size = 2, skip_adult = True, min_popularity = Fin 0\<rparr>"
  let ?sto = "memory_storage refuse_none"
  let ?es = "[CsvEntry (plain_movie 1), CsvEntry (plain_movie 2), CsvEntry (plain_movie 2)]"
  let ?st1 = "\<lparr>imported = 2, skipped_existing = 1, skipped_invalid = 0, skipped_adult = 0,
       skipped_unpopular = 0, processed = 3, batch = [], existing_ids = {1, 2},
       db = [plain_movie 1, plain_movie 2]\<rparr> :: movie_fields list import_state"
  have r1: "import_run plain_lib ?sto ?cfg [] ?es = Inr ?st1" by (rule run_small)
  have p1: "processed ?st1 = length ?es" by simp
  have s1: "existing_ids ?st1 \<subseteq> query_existing_ids ?sto (db ?st1)"
    by (simp add: memory_storage_def plain_movie_def)
  from idempotent_resume[OF r1 p1 s1] obtain st2 where
    "import_run plain_lib ?sto ?cfg (db ?st1) ?es = Inr st2"
    "imported st2 = 0" "db st2 = db ?st1"
    "skipped_existing st2 = skipped_existing ?st1 + imported ?st1"
    by blast
  then have "\<exists>st2. import_run plain_lib ?sto ?cfg (db ?st1) ?es = Inr st2
         \<and> imported st2 = 0 \<and> skipped_existing st2 = 3 \<and> db st2 = db ?st1"
    by simp
  with r1 p1 s1 show ?thesis by (intro exI[of _ ?st1]) simp
qed

text \<open>
  A first run that the limit stops early leaves entries unexamined, and the second run
  imports them: with limit 1 and batch size 1 the stream of identifiers 1, 2 gives
  \<open>imported = 1\<close> in the first run and \<open>imported = 1\<close> again in the second, which is
  seeded with the row the first run stored.
\<close>

theorem resume_after_limit_counterexample:
  "import_run plain_lib (memory_storage refuse_none)
     \<lparr>limit = 1, batch_size = 1, skip_adult = True, min_popularity = Fin 0\<rparr> []
     [CsvEntry (plain_movie 1), CsvEntry (plain_movie 2)]
   = Inr \<lparr>imported = 1, skipped_existing = 0, skipped_invalid = 0, skipped_adult = 0,
       skipped_unpopular = 0, processed = 1, batch = [], existing_ids = {1},
       db = [plain_movie 1]\<rparr>
   \<and> bulk_import_tmdb plain_lib (memory_storage refuse_none)
     \<lparr>limit = 1, batch_size = 1, skip_adult = True, min_popularity = Fin 0\<rparr> [plain_movie 1]
     [CsvEntry (plain_movie 1), CsvEntry (plain_movie 2)] = Inr (1, 1, 2)"
  by (simp add: bulk_import_tmdb_def import_run_def initial_state_def memory_storage_def ebind_def
      entry_outcome_def import_entry_def flush_def final_batch_def bulk_create_batch_def
      insert_ignore_def plain_movie_def refuse_none_def)

section \<open>Properties of the batch committer\<close>

lemma memory_storage_fields [simp]:
  "query_existing_ids (memory_storage r) d = set (map tmdb_id d)"
  "bulk_create (memory_storage r) d b = (if list_ex r b then None else Some (foldl insert_ignore d b))"
  "save (memory_storage r) d m = (if r m \<or> tmdb_id m \<in> set (map tmdb_id d) then None else Some (d @ [m]))"
  by (simp_all add: memory_storage_def)





text \<open>
  Claim C5 fails on the code. \<^verbatim>\<open>_bulk_create_batch\<close> returns nothing and passes over
  the records whose own save fails, and the supervisor adds the length of the whole
  batch to \<^verbatim>\<open>imported\<close>: of a batch of two records, one of which the database
  refuses, one row is stored and the run reports \<^verbatim>\<open>imported = 2\<close>.
\<close>

theorem commit_count_overstated:
  "import_run plain_lib (memory_storage (refuse_id 2))
     \<lparr>limit = 10, batch_size = 2, skip_adult = True, min_popularity = Fin 0\<rparr> []
     [CsvEntry (plain_movie 1), CsvEntry (plain_movie 2)]
   = Inr \<lparr>imported = 2, skipped_existing = 0, skipped_invalid = 0, skipped_adult = 0,
       skipped_unpopular = 0, processed = 2, batch = [], existing_ids = {1, 2},
       db = [plain_movie 1]\<rparr>"
  by (auto simp: import_run_def initial_state_def memory_storage_def ebind_def
      entry_outcome_def import_entry_def flush_def final_batch_def bulk_create_batch_def
      insert_ignore_def plain_movie_def refuse_id_def)










section \<open>Interruption\<close>





section \<open>The record limit and the batch size\<close>

lemmas run_defs = bulk_import_tmdb_def import_run_def initial_state_def memory_storage_def ebind_def
      entry_outcome_def import_entry_def flush_def final_batch_def bulk_create_batch_def
      insert_ignore_def plain_movie_def refuse_none_def

text \<open>
  Claim C4 fails on the code. The limit is compared with \<^verbatim>\<open>imported\<close>, which grows only
  when a batch is committed, so the records of the pending batch escape the test:
  with limit 1 and batch size 2 a stream of two new records is imported whole.
\<close>

theorem record_limit_overshoot:
  "bulk_import_tmdb plain_lib (memory_storage refuse_none)
     \<lparr>limit = 1, batch_size = 2, skip_adult = True, min_popularity = Fin 0\<rparr> []
     [CsvEntry (plain_movie 1), CsvEntry (plain_movie 2)] = Inr (2, 0, 2)"
  by (simp add: run_defs)

text \<open>
  Claim C3 fails on the code for the same reason: with limit 1 and a stream of three
  new records, batch size 1 imports one record and batch size 10 imports three.
\<close>

theorem batch_size_dependence:
  "bulk_import_tmdb plain_lib (memory_storage refuse_none)
     \<lparr>limit = 1, batch_size = 1, skip_adult = True, min_popularity = Fin 0\<rparr> []
     [CsvEntry (plain_movie 1), CsvEntry (plain_movie 2), CsvEntry (plain_movie 3)] = Inr (1, 0, 1)
   \<and> bulk_import_tmdb plain_lib (memory_storage refuse_none)
     \<lparr>limit = 1, batch_size = 10, skip_adult = True, min_popularity = Fin 0\<rparr> []
     [CsvEntry (plain_movie 1), CsvEntry (plain_movie 2), CsvEntry (plain_movie 3)] = Inr (3, 0, 3)"
  by (simp add: run_defs)

section \<open>Properties of the parsers\<close>

text \<open>
  Claim C7 fails on the code. The validator's expression groups as
  \<^verbatim>\<open>(dict and id and title) or original_title\<close>, so an object without an identifier
  is accepted as soon as it has an \<^verbatim>\<open>original_title\<close>; the stream yields it, and when
  it also has a release date the normalizer raises KeyError on the missing identifier.
\<close>

theorem identifier_not_required:
  \<open>is_valid_movie (PDict [(''original_title'', PStr ''X'')]) = Inr (PStr ''X'')
   \<and> truthy (PStr ''X'')
   \<and> stream_fallback
        (table_lib [(''{"original_title": "X"}'', PDict [(''original_title'', PStr ''X'')])] [])
        [''{"original_title": "X"}'']
      = Inr [PDict [(''original_title'', PStr ''X'')]]
   \<and> movie_to_django_fields lib
        [(''original_title'', PStr ''X''), (''release_date'', PStr ''2000-01-01'')]
      = Inl KeyError\<close>
  by (simp add: py_or_def pyget_def table_lib_def plain_lib_def stream_fallback_def strip_def is_space_def
      startswith_def endswith_def ebind_def movie_to_django_fields_def parse_release_year_def
      int_of_str_def int_strip_def is_int_space_def unsigned_of_str_def digit_of_def parse_genres_def poster_of_def
      poster_url_def popularity_of_def)

text \<open>
  Claim C8 fails on the code. The hierarchical normalizer copies \<^verbatim>\<open>overview\<close> and
  \<^verbatim>\<open>released\<close> uncut: an overview of 6000 characters and a release date of 110
  characters reach the record at their full length, where the tabular normalizer cuts
  them at 5000 and 100.
\<close>

theorem overview_not_truncated:
  "(case movie_to_django_fields lib
      [(''id'', PInt 1), (''title'', PStr ''T''),
       (''release_date'', PStr (''2020-01-01'' @ replicate 100 (CHR ''x''))),
       (''overview'', PStr (replicate 6000 (CHR ''a'')))] of
      Inr (Some f) \<Rightarrow> (py_len (overview f), py_len (released f))
    | _ \<Rightarrow> (0, 0)) = (6000, 110)"
  by (simp add: py_or_def pyget_def ebind_def movie_to_django_fields_def parse_release_year_def
      int_of_str_def int_strip_def is_int_space_def unsigned_of_str_def digit_of_def parse_genres_def poster_of_def
      poster_url_def popularity_of_def strip_def is_space_def)

lemmas row_defs = row_to_movie_def row_get_def pyget_def parse_year_def int_of_str_def
  int_strip_def is_int_space_def
  unsigned_of_str_def safe_int_def safe_float_def table_lib_def plain_lib_def float_table_def
  lower_def lower_char_def strip_def is_space_def ebind_def trunc_def digit_of_def
  str_of_int_def digits_of.simps caught_def extract_crew_def extract_genres_def
  extract_languages_def extract_cast_def extract_countries_def
  extract_production_companies_def parse_json_field_def replace_char_def poster_url_def
  startswith_def commas_of_int_def py_join_def

text \<open>
  Claim C9 fails on the code. The handler around \<^verbatim>\<open>ast.literal_eval\<close> catches
  ValueError and SyntaxError only. For the cell \<^verbatim>\<open>{[]}\<close> the JSON decoder fails and
  \<^verbatim>\<open>ast.literal_eval\<close> raises TypeError (a list in a set display is unhashable);
  the exception leaves \<^verbatim>\<open>_parse_json_field\<close> and \<^verbatim>\<open>_row_to_movie\<close>. A cell on
  which the literal decoder raises ValueError gives a record with no genres.
\<close>

theorem literal_decoder_type_error:
  "parse_json_field (table_lib [] [(''{[]}'', TypeError)]) ''{[]}'' = Inl TypeError
   \<and> row_to_movie (table_lib [] [(''{[]}'', TypeError)])
       [(''id'', PStr ''603''), (''title'', PStr ''A''), (''release_date'', PStr ''1999-03-31''),
        (''status'', PStr ''Released''), (''genres'', PStr ''{[]}'')] True 0
     = Inl TypeError
   \<and> (case row_to_movie (table_lib [] [])
        [(''id'', PStr ''603''), (''title'', PStr ''A''), (''release_date'', PStr ''1999-03-31''),
         (''status'', PStr ''Released''), (''genres'', PStr ''not json'')] True 0 of
        Inr (Some f) \<Rightarrow> Some (tmdb_id f, genres f)
      | _ \<Rightarrow> None) = Some (603, [])"
  by (simp add: row_defs)




lemma import_loop_csv_stream:
  assumes "stream_rows lib rows only_released min_votes = Inr ms"
  shows "import_loop_csv lib sto cfg only_released min_votes rows st
       = import_loop lib sto cfg (map CsvEntry ms) st"
  using assms
proof (induction rows arbitrary: ms st)
  case Nil
  then show ?case by simp
next
  case (Cons row rows)
  from Cons.prems obtain movie ms' where
    m: "row_to_movie lib row only_released min_votes = Inr movie"
    and r: "stream_rows lib rows only_released min_votes = Inr ms'"
    and ms: "ms = (case movie of None \<Rightarrow> ms' | Some x \<Rightarrow> x # ms')"
    by (auto simp: ebind_def split: sum.splits)
  show ?case
  proof (cases movie)
    case None
    with m ms Cons.IH[OF r] show ?thesis by simp
  next
    case (Some x)
    with m ms Cons.IH[OF r] show ?thesis by (simp add: entry_outcome_def)
  qed
qed




end
